theory Spec2Isabelle
  imports Complex_Main "HOL-Library.Multiset"
begin

section \<open>Data model of \<^verbatim>\<open>src/App.tsx\<close>\<close>

text \<open>
  The stock tracker keeps a flat log of buy and sell transactions and derives from it, on
  every change, the open positions and the realized gains of each ticker.

  A JavaScript \<^verbatim>\<open>number\<close> is a binary floating-point value, and every finite one is a
  \<^typ>\<open>real\<close>. The replay of the log adds, subtracts and takes one quotient; rounding moves
  those results by one part in \<open>2 ^ 53\<close> at most, and its identities are stated in exact
  arithmetic. The calculator and the valuation hand products to \<^verbatim>\<open>Math.floor\<close>, where
  the rounding of a product can cross an integer and change the result by a whole currency
  unit: their arithmetic is a parameter (\<open>Arith\<close> below), so that what is proved of them
  holds for the rounded operations of the machine as for exact ones. Overflow to an
  infinity and \<^verbatim>\<open>NaN\<close> are outside the model; every division of the source is guarded by
  a test that the divisor is positive. \<^verbatim>\<open>Math.max\<close> is \<^const>\<open>max\<close>.

  Several interfaces of the source share field names. The fields of a record carry a
  short prefix of its interface: \<open>t_\<close> for \<^verbatim>\<open>Transaction\<close>, \<open>h_\<close> for the open-position
  accumulator and the \<^verbatim>\<open>Holding\<close> built from it, \<open>r_\<close> for \<^verbatim>\<open>RealizedItem\<close>, \<open>f_\<close> for
  the entry form.
\<close>

datatype MarketType = TW | US

datatype CurrencyType = TWD | USD

datatype TradeType = Buy | Sell

record Transaction =
  t_id :: string
  t_date :: string
  t_ticker :: string
  t_name :: string
  t_type :: TradeType
  t_market :: MarketType
  t_price :: real
  t_shares :: real
  t_isETF :: bool
  t_fee :: real
  t_tax :: real
  t_totalAmount :: real

text \<open>The element type of \<^verbatim>\<open>tempHoldings\<close>: the open-position accumulator of a ticker.\<close>

record TempHolding =
  h_ticker :: string
  h_name :: string
  h_market :: MarketType
  h_shares :: real
  h_totalCost :: real
  h_isETF :: bool

text \<open>
  \<^verbatim>\<open>Holding\<close>: the accumulator spread into a new object (\<^verbatim>\<open>{...h, currency, avgCost, ...}\<close>).
\<close>

record Holding = TempHolding +
  h_currency :: CurrencyType
  h_avgCost :: real
  h_marketValue :: real
  h_unrealizedPL :: real
  h_roi :: real

record RealizedItem =
  r_ticker :: string
  r_name :: string
  r_market :: MarketType
  r_currency :: CurrencyType
  r_realizedPL :: real
  r_totalCost :: real
  r_totalRevenue :: real
  r_roi :: real
  r_tradeCount :: nat
  r_isETF :: bool

record AppSettings =
  twFeeRate :: real
  twDiscount :: real
  twTaxRateStock :: real
  twTaxRateETF :: real
  twMinFee :: real
  usFeeRate :: real
  usMinFee :: real
  usTaxRate :: real

text \<open>
  The default settings, each literal of the source read as the decimal it writes; the
  machine holds the binary64 number nearest to it.
\<close>

definition DEFAULT_SETTINGS :: AppSettings where
  "DEFAULT_SETTINGS =
     \<lparr> twFeeRate = 0.001425, twDiscount = 0.6, twTaxRateStock = 0.003,
       twTaxRateETF = 0.001, twMinFee = 20, usFeeRate = 0.001, usMinFee = 0,
       usTaxRate = 0.000008 \<rparr>"

section \<open>The fee and tax calculator\<close>

text \<open>The object \<^verbatim>\<open>{ fee, tax, total }\<close> returned by \<^verbatim>\<open>calculateTransactionAmount\<close>.\<close>

record Amount =
  fee :: real
  tax :: real
  total :: real

text \<open>
  The four operations \<^verbatim>\<open>*\<close>, \<^verbatim>\<open>+\<close>, \<^verbatim>\<open>-\<close> and \<^verbatim>\<open>/\<close> on numbers, as a parameter. The
  machine's are the exact operations followed by rounding to the nearest representable
  number; \<open>exactArith\<close> does not round.
\<close>

record Arith =
  fmul :: "real \<Rightarrow> real \<Rightarrow> real"
  fadd :: "real \<Rightarrow> real \<Rightarrow> real"
  fsub :: "real \<Rightarrow> real \<Rightarrow> real"
  fdiv :: "real \<Rightarrow> real \<Rightarrow> real"

definition exactArith :: Arith where
  "exactArith = \<lparr> fmul = (*), fadd = (+), fsub = (-), fdiv = (/) \<rparr>"

text \<open>
  The machine's numbers are the binary64 numbers: an integer of at most 53 bits times a
  power of two. \<open>round64\<close> is the nearest of them to a real, a tie going to the even
  integer, for a result in the normal range (neither overflow nor a subnormal result is
  modelled); the exponent is that of the binade of the argument. \<open>ieeeArith\<close> rounds
  each exact result so.
\<close>

definition roundHalfEven :: "real \<Rightarrow> int" where
  "roundHalfEven x =
     (let n = \<lfloor>x\<rfloor>; r = x - of_int n
      in if r < 1 / 2 then n else if r > 1 / 2 then n + 1 else if even n then n else n + 1)"

definition round64 :: "real \<Rightarrow> real" where
  "round64 x =
     (if x = 0 then 0
      else (let e = \<lfloor>log 2 \<bar>x\<bar>\<rfloor> - 52
            in of_int (roundHalfEven (x / 2 powr of_int e)) * 2 powr of_int e))"

definition ieeeArith :: Arith where
  "ieeeArith = \<lparr> fmul = (\<lambda>a b. round64 (a * b)), fadd = (\<lambda>a b. round64 (a + b)),
                 fsub = (\<lambda>a b. round64 (a - b)), fdiv = (\<lambda>a b. round64 (a / b)) \<rparr>"

text \<open>
  \<^verbatim>\<open>Math.floor\<close> itself does not round: the floor of a number is a number. What it is
  applied to in the source is a product computed by the machine, written with \<open>fmul\<close>
  in the functions below, each \<^verbatim>\<open>a * b * c\<close> of the source being \<^verbatim>\<open>(a * b) * c\<close>.
\<close>

definition Math_floor :: "real \<Rightarrow> real" where
  "Math_floor x = real_of_int \<lfloor>x\<rfloor>"

text \<open>
  \<^verbatim>\<open>calculateTransactionAmount\<close> reads \<^verbatim>\<open>settings\<close> from the component's state; the model
  takes it as an argument, after the arithmetic.
\<close>

definition calculateTransactionAmount ::
  "Arith \<Rightarrow> AppSettings \<Rightarrow> TradeType \<Rightarrow> MarketType \<Rightarrow> real \<Rightarrow> real \<Rightarrow> bool \<Rightarrow> Amount" where
  "calculateTransactionAmount ar settings type market price shares isETF =
     (let rawAmount = fmul ar price shares;
          (fee, tax) =
            (if market = TW
             then (max (twMinFee settings)
                       (Math_floor (fmul ar (fmul ar rawAmount (twFeeRate settings))
                                            (twDiscount settings))),
                   if type = Sell
                   then Math_floor (fmul ar rawAmount
                          (if isETF then twTaxRateETF settings else twTaxRateStock settings))
                   else 0)
             else (max (usMinFee settings) (fmul ar rawAmount (usFeeRate settings)),
                   if type = Sell then fmul ar rawAmount (usTaxRate settings) else 0));
          total = (if type = Buy then fadd ar rawAmount fee
                   else fsub ar (fsub ar rawAmount fee) tax)
      in \<lparr> fee = fee, tax = tax, total = total \<rparr>)"


definition spec_fee :: "Arith \<Rightarrow> AppSettings \<Rightarrow> MarketType \<Rightarrow> real \<Rightarrow> real" where
  "spec_fee ar cfg market gross =
     (case market of
        TW \<Rightarrow> max (twMinFee cfg)
                (real_of_int \<lfloor>fmul ar (fmul ar gross (twFeeRate cfg)) (twDiscount cfg)\<rfloor>)
      | US \<Rightarrow> max (usMinFee cfg) (fmul ar gross (usFeeRate cfg)))"

definition spec_tax ::
  "Arith \<Rightarrow> AppSettings \<Rightarrow> TradeType \<Rightarrow> MarketType \<Rightarrow> bool \<Rightarrow> real \<Rightarrow> real" where
  "spec_tax ar cfg side market isFundLike gross =
     (case side of
        Buy \<Rightarrow> 0
      | Sell \<Rightarrow>
          (case market of
             TW \<Rightarrow> real_of_int
                     \<lfloor>fmul ar gross (if isFundLike then twTaxRateETF cfg else twTaxRateStock cfg)\<rfloor>
           | US \<Rightarrow> fmul ar gross (usTaxRate cfg)))"



section \<open>The accounting engine\<close>

text \<open>
  The two objects \<^verbatim>\<open>tempHoldings\<close> and \<^verbatim>\<open>tempRealized\<close> that the replay fills, keyed by
  ticker. A missing key (\<^verbatim>\<open>undefined\<close> in the source) is \<^const>\<open>None\<close>.
\<close>

record Replay =
  tempHoldings :: "string \<rightharpoonup> TempHolding"
  tempRealized :: "string \<rightharpoonup> RealizedItem"

definition emptyReplay :: Replay where
  "emptyReplay = \<lparr> tempHoldings = Map.empty, tempRealized = Map.empty \<rparr>"

text \<open>The objects stored on first sight of a ticker (\<^verbatim>\<open>// Init Holdings\<close>, \<^verbatim>\<open>// Init Realized\<close>).\<close>

definition initHolding :: "Transaction \<Rightarrow> TempHolding" where
  "initHolding t =
     \<lparr> h_ticker = t_ticker t, h_name = t_name t, h_market = t_market t,
       h_shares = 0, h_totalCost = 0, h_isETF = t_isETF t \<rparr>"

definition initRealized :: "Transaction \<Rightarrow> RealizedItem" where
  "initRealized t =
     \<lparr> r_ticker = t_ticker t, r_name = t_name t, r_market = t_market t,
       r_currency = (if t_market t = TW then TWD else USD),
       r_realizedPL = 0, r_totalCost = 0, r_totalRevenue = 0, r_roi = 0,
       r_tradeCount = 0, r_isETF = t_isETF t \<rparr>"

text \<open>
  \<^verbatim>\<open>const h = tempHoldings[t.ticker]\<close> and \<^verbatim>\<open>const r = tempRealized[t.ticker]\<close>, read after
  the lazy initialisation: the stored object, or the fresh one when the key was missing.
\<close>

definition holdingFor :: "Replay \<Rightarrow> Transaction \<Rightarrow> TempHolding" where
  "holdingFor st t =
     (case tempHoldings st (t_ticker t) of None \<Rightarrow> initHolding t | Some h \<Rightarrow> h)"

definition realizedFor :: "Replay \<Rightarrow> Transaction \<Rightarrow> RealizedItem" where
  "realizedFor st t =
     (case tempRealized st (t_ticker t) of None \<Rightarrow> initRealized t | Some r \<Rightarrow> r)"

text \<open>
  The \<^verbatim>\<open>if (t.type === 'buy') ... else ...\<close> statement of the loop body: a buy pools the
  settlement amount and the shares; a sell, only while shares are held, retires cost at the
  current average and books the gain.
\<close>

definition applyTrade ::
  "Transaction \<Rightarrow> TempHolding \<Rightarrow> RealizedItem \<Rightarrow> TempHolding \<times> RealizedItem" where
  "applyTrade t h r =
     (if t_type t = Buy
      then (h\<lparr> h_totalCost := h_totalCost h + t_totalAmount t,
               h_shares := h_shares h + t_shares t \<rparr>, r)
      else if h_shares h > 0
      then (let avgCost = h_totalCost h / h_shares h;
                costOfSoldShares = avgCost * t_shares t;
                realizedAmount = t_totalAmount t - costOfSoldShares
            in (h\<lparr> h_totalCost := h_totalCost h - costOfSoldShares,
                    h_shares := h_shares h - t_shares t \<rparr>,
                r\<lparr> r_realizedPL := r_realizedPL r + realizedAmount,
                    r_totalCost := r_totalCost r + costOfSoldShares,
                    r_totalRevenue := r_totalRevenue r + t_totalAmount t,
                    r_tradeCount := r_tradeCount r + 1 \<rparr>))
      else (h, r))"

text \<open>The closing statement of the loop body: \<^verbatim>\<open>if (h.shares <= 0.000001) { ... }\<close>.\<close>

definition normalize :: "TempHolding \<Rightarrow> TempHolding" where
  "normalize h =
     (if h_shares h \<le> 0.000001 then h\<lparr> h_shares := 0, h_totalCost := 0 \<rparr> else h)"

text \<open>
  The body of \<^verbatim>\<open>sortedTrans.forEach\<close>. The source mutates the two objects it looked up;
  the model stores the updated objects back under the ticker.
\<close>

definition processTrans :: "Replay \<Rightarrow> Transaction \<Rightarrow> Replay" where
  "processTrans st t =
     (let h = holdingFor st t;
          r = realizedFor st t;
          (h1, r1) = applyTrade t h r
      in \<lparr> tempHoldings = (tempHoldings st)(t_ticker t \<mapsto> normalize h1),
           tempRealized = (tempRealized st)(t_ticker t \<mapsto> r1) \<rparr>)"

definition replay :: "Transaction list \<Rightarrow> Replay" where
  "replay ts = foldl processTrans emptyReplay ts"

subsection \<open>Sorting the log\<close>

text \<open>
  \<^verbatim>\<open>new Date(s).getTime()\<close> belongs to the platform. The engine takes it as a parameter
  \<open>getTime\<close>, a function from the date text to milliseconds, \<^const>\<open>None\<close> standing for
  \<^verbatim>\<open>NaN\<close> (an invalid date). The comparator of the source subtracts two such times.
\<close>

definition compareDates ::
  "(string \<Rightarrow> int option) \<Rightarrow> Transaction \<Rightarrow> Transaction \<Rightarrow> int option" where
  "compareDates getTime a b =
     (case (getTime (t_date a), getTime (t_date b)) of
        (Some x, Some y) \<Rightarrow> Some (x - y)
      | _ \<Rightarrow> None)"

text \<open>
  \<^verbatim>\<open>Array.prototype.sort\<close> is stable, and it reads a comparator result of \<^verbatim>\<open>NaN\<close> as 0.
  For a consistent comparator every stable sort gives the same array; the model computes
  it by insertion from the right, an element moving behind exactly those it compares
  greater than.
\<close>

definition comesAfter :: "int option \<Rightarrow> bool" where
  "comesAfter v = (case v of None \<Rightarrow> False | Some d \<Rightarrow> d > 0)"

fun insertBy :: "('a \<Rightarrow> 'a \<Rightarrow> int option) \<Rightarrow> 'a \<Rightarrow> 'a list \<Rightarrow> 'a list" where
  "insertBy cmp x [] = [x]"
| "insertBy cmp x (y # ys) =
     (if comesAfter (cmp x y) then y # insertBy cmp x ys else x # y # ys)"

definition Array_sort :: "('a \<Rightarrow> 'a \<Rightarrow> int option) \<Rightarrow> 'a list \<Rightarrow> 'a list" where
  "Array_sort cmp xs = foldr (insertBy cmp) xs []"

definition sortedTrans :: "(string \<Rightarrow> int option) \<Rightarrow> Transaction list \<Rightarrow> Transaction list" where
  "sortedTrans getTime transactions = Array_sort (compareDates getTime) transactions"

subsection \<open>Valuation of the open positions\<close>

text \<open>
  The function mapped over the open accumulators to build \<^verbatim>\<open>finalHoldings\<close>.
  \<open>currentPriceOf\<close> is \<^verbatim>\<open>manualPrices[h.ticker] || 0\<close>, which is 0 for a missing key;
  \<open>estSell\<close> is the \<^verbatim>\<open>if (h.market === 'TW') ... else ...\<close> statement that sets
  \<^verbatim>\<open>estSellFee\<close> and \<^verbatim>\<open>estSellTax\<close>.
\<close>

definition estSell :: "Arith \<Rightarrow> AppSettings \<Rightarrow> real \<Rightarrow> TempHolding \<Rightarrow> real \<times> real" where
  "estSell ar settings currentPrice h =
     (if h_market h = TW
      then (max (twMinFee settings)
                (Math_floor (fmul ar (fmul ar (fmul ar currentPrice (h_shares h))
                                              (twFeeRate settings))
                                     (twDiscount settings))),
            Math_floor (fmul ar (fmul ar currentPrice (h_shares h))
              (if h_isETF h then twTaxRateETF settings else twTaxRateStock settings)))
      else (max (usMinFee settings)
                (fmul ar (fmul ar currentPrice (h_shares h)) (usFeeRate settings)),
            fmul ar (fmul ar currentPrice (h_shares h)) (usTaxRate settings)))"

definition currentPriceOf :: "(string \<rightharpoonup> real) \<Rightarrow> string \<Rightarrow> real" where
  "currentPriceOf manualPrices k = (case manualPrices k of None \<Rightarrow> 0 | Some p \<Rightarrow> p)"

definition toHolding ::
  "Arith \<Rightarrow> AppSettings \<Rightarrow> (string \<rightharpoonup> real) \<Rightarrow> TempHolding \<Rightarrow> Holding" where
  "toHolding ar settings manualPrices h =
     (let currentPrice = currentPriceOf manualPrices (h_ticker h);
          avgCost = (if h_shares h > 0 then fdiv ar (h_totalCost h) (h_shares h) else 0);
          (estSellFee, estSellTax) = estSell ar settings currentPrice h;
          marketValue = fsub ar (fsub ar (fmul ar currentPrice (h_shares h)) estSellFee)
                          estSellTax;
          unrealizedPL = fsub ar marketValue (h_totalCost h);
          roi = (if h_totalCost h > 0
                 then fmul ar (fdiv ar unrealizedPL (h_totalCost h)) 100 else 0)
      in \<lparr> h_ticker = h_ticker h, h_name = h_name h, h_market = h_market h,
           h_shares = h_shares h, h_totalCost = h_totalCost h, h_isETF = h_isETF h,
           h_currency = (if h_market h = TW then TWD else USD),
           h_avgCost = avgCost, h_marketValue = marketValue,
           h_unrealizedPL = unrealizedPL, h_roi = roi \<rparr>)"

definition toRealized :: "Arith \<Rightarrow> RealizedItem \<Rightarrow> RealizedItem" where
  "toRealized ar r =
     r\<lparr> r_roi := (if r_totalCost r > 0
                  then fmul ar (fdiv ar (r_realizedPL r) (r_totalCost r)) 100 else 0) \<rparr>"

text \<open>
  \<^verbatim>\<open>finalHoldings\<close> and \<^verbatim>\<open>finalRealized\<close>: the values of the two objects, filtered and
  mapped. The source returns them as arrays; every element carries its ticker and no two
  share one, so the model keeps them keyed by ticker and leaves the order of the arrays
  (a matter of display) out.
\<close>

definition finalHoldings ::
  "Arith \<Rightarrow> AppSettings \<Rightarrow> (string \<rightharpoonup> real) \<Rightarrow> Replay \<Rightarrow> (string \<rightharpoonup> Holding)" where
  "finalHoldings ar settings manualPrices st =
     (\<lambda>k. case tempHoldings st k of
             None \<Rightarrow> None
           | Some h \<Rightarrow> if h_shares h > 0 then Some (toHolding ar settings manualPrices h)
                       else None)"

definition finalRealized :: "Arith \<Rightarrow> Replay \<Rightarrow> (string \<rightharpoonup> RealizedItem)" where
  "finalRealized ar st =
     (\<lambda>k. case tempRealized st k of
             None \<Rightarrow> None
           | Some r \<Rightarrow> if r_tradeCount r > 0 then Some (toRealized ar r) else None)"

record Derived =
  holdings :: "string \<rightharpoonup> Holding"
  realizedGains :: "string \<rightharpoonup> RealizedItem"

text \<open>The function memoised by \<^verbatim>\<open>useMemo\<close> over \<^verbatim>\<open>[transactions, manualPrices, settings]\<close>.\<close>

definition derive ::
  "Arith \<Rightarrow> (string \<Rightarrow> int option) \<Rightarrow> AppSettings \<Rightarrow> (string \<rightharpoonup> real) \<Rightarrow> Transaction list
     \<Rightarrow> Derived" where
  "derive ar getTime settings manualPrices transactions =
     (let st = replay (sortedTrans getTime transactions)
      in \<lparr> holdings = finalHoldings ar settings manualPrices st,
           realizedGains = finalRealized ar st \<rparr>)"

text \<open>
  What an accumulator holds for a ticker, read as a number: the stored field, or the 0
  that the lazy initialisation would store for a ticker not seen yet.
\<close>

definition sharesOf :: "Replay \<Rightarrow> string \<Rightarrow> real" where
  "sharesOf st k = (case tempHoldings st k of None \<Rightarrow> 0 | Some h \<Rightarrow> h_shares h)"

definition totalCostBasisOf :: "Replay \<Rightarrow> string \<Rightarrow> real" where
  "totalCostBasisOf st k = (case tempHoldings st k of None \<Rightarrow> 0 | Some h \<Rightarrow> h_totalCost h)"

definition realizedPLOf :: "Replay \<Rightarrow> string \<Rightarrow> real" where
  "realizedPLOf st k = (case tempRealized st k of None \<Rightarrow> 0 | Some r \<Rightarrow> r_realizedPL r)"

definition totalCostRetiredOf :: "Replay \<Rightarrow> string \<Rightarrow> real" where
  "totalCostRetiredOf st k = (case tempRealized st k of None \<Rightarrow> 0 | Some r \<Rightarrow> r_totalCost r)"

definition totalRevenueOf :: "Replay \<Rightarrow> string \<Rightarrow> real" where
  "totalRevenueOf st k = (case tempRealized st k of None \<Rightarrow> 0 | Some r \<Rightarrow> r_totalRevenue r)"

definition tradeCountOf :: "Replay \<Rightarrow> string \<Rightarrow> nat" where
  "tradeCountOf st k = (case tempRealized st k of None \<Rightarrow> 0 | Some r \<Rightarrow> r_tradeCount r)"

subsection \<open>The derivation on a store of arrays\<close>

text \<open>
  \<^verbatim>\<open>sort\<close> sorts the array it is called on in place, and \<^verbatim>\<open>[...transactions]\<close> allocates a
  new array. To say which array the sort writes to, arrays live in a store addressed by
  their index; \<^const>\<open>None\<close> is returned for an address that holds no array, which the
  source never passes.
\<close>

type_synonym store = "Transaction list list"

definition spread :: "store \<Rightarrow> nat \<Rightarrow> (nat \<times> store) option" where
  "spread hp a = (if a < length hp then Some (length hp, hp @ [hp ! a]) else None)"

definition sortInPlace ::
  "(Transaction \<Rightarrow> Transaction \<Rightarrow> int option) \<Rightarrow> store \<Rightarrow> nat \<Rightarrow> store option" where
  "sortInPlace cmp hp a = (if a < length hp then Some (hp[a := Array_sort cmp (hp ! a)]) else None)"

definition readArray :: "store \<Rightarrow> nat \<Rightarrow> Transaction list option" where
  "readArray hp a = (if a < length hp then Some (hp ! a) else None)"

definition deriveOnStore ::
  "Arith \<Rightarrow> (string \<Rightarrow> int option) \<Rightarrow> AppSettings \<Rightarrow> (string \<rightharpoonup> real) \<Rightarrow> store \<Rightarrow> nat
     \<Rightarrow> (Derived \<times> store) option" where
  "deriveOnStore ar getTime settings manualPrices hp transactions =
     (case spread hp transactions of
        None \<Rightarrow> None
      | Some (copy, hp1) \<Rightarrow>
          (case sortInPlace (compareDates getTime) hp1 copy of
             None \<Rightarrow> None
           | Some hp2 \<Rightarrow>
               (case readArray hp2 copy of
                  None \<Rightarrow> None
                | Some sorted_copy \<Rightarrow>
                    (let st = replay sorted_copy
                     in Some (\<lparr> holdings = finalHoldings ar settings manualPrices st,
                                realizedGains = finalRealized ar st \<rparr>, hp2)))))"

section \<open>Adding a transaction\<close>

record Form =
  f_date :: string
  f_ticker :: string
  f_name :: string
  f_type :: TradeType
  f_market :: MarketType
  f_price :: string
  f_shares :: string
  f_isETF :: bool

text \<open>The part of the component's state that \<^verbatim>\<open>handleAddTransaction\<close> reads or writes.\<close>

record AppState =
  transactions :: "Transaction list"
  settings :: AppSettings
  manualPrices :: "string \<rightharpoonup> real"
  showAddModal :: bool
  form :: Form

text \<open>
  \<^verbatim>\<open>toUpperCase\<close> on the ASCII letters; a \<^typ>\<open>char\<close> is a byte. The lower-case letters are
  the codes 97 to 122, and the upper-case letter of each is 32 below it: the same bits with
  bit 5 cleared.
\<close>

definition toUpperCase :: "string \<Rightarrow> string" where
  "toUpperCase s =
     map (\<lambda>c. if 97 \<le> (of_char c :: nat) \<and> (of_char c :: nat) \<le> 122
               then (case c of Char b0 b1 b2 b3 b4 b5 b6 b7 \<Rightarrow> Char b0 b1 b2 b3 b4 False b6 b7)
               else c) s"

text \<open>
  \<^verbatim>\<open>parseFloat\<close> and \<^verbatim>\<open>Date.now().toString()\<close> belong to the platform and are parameters:
  \<open>parseFloat\<close> maps a text to a number, \<^const>\<open>None\<close> standing for \<^verbatim>\<open>NaN\<close>; \<open>now\<close> is the
  text of the clock at the call. An empty string is the only falsy string, so
  \<^verbatim>\<open>!form.ticker\<close> is \<open>f_ticker f = []\<close>. The early \<^verbatim>\<open>return\<close> leaves the state as it is.
  A price or share text that parses to \<^verbatim>\<open>NaN\<close> makes the source append a transaction whose
  numbers are \<^verbatim>\<open>NaN\<close>; the real-valued \<^typ>\<open>Transaction\<close> cannot hold it, and the model
  answers \<^const>\<open>None\<close> there.
\<close>

definition handleAddTransaction ::
  "Arith \<Rightarrow> (string \<Rightarrow> real option) \<Rightarrow> string \<Rightarrow> AppState \<Rightarrow> AppState option" where
  "handleAddTransaction ar parseFloat now s =
     (let f = form s in
      if f_ticker f = [] \<or> f_price f = [] \<or> f_shares f = [] then Some s
      else
        (case (parseFloat (f_price f), parseFloat (f_shares f)) of
           (Some priceNum, Some sharesNum) \<Rightarrow>
             (let a = calculateTransactionAmount ar (settings s) (f_type f) (f_market f)
                        priceNum sharesNum (f_isETF f);
                  newTrans =
                    \<lparr> t_id = now, t_date = f_date f, t_ticker = toUpperCase (f_ticker f),
                      t_name = (if f_name f = [] then toUpperCase (f_ticker f) else f_name f),
                      t_type = f_type f, t_market = f_market f, t_price = priceNum,
                      t_shares = sharesNum, t_isETF = f_isETF f, t_fee = fee a,
                      t_tax = tax a, t_totalAmount = total a \<rparr>
              in Some (s\<lparr> transactions := transactions s @ [newTrans],
                          manualPrices :=
                            (if f_type f = Buy
                             then (manualPrices s)(t_ticker newTrans \<mapsto> priceNum)
                             else manualPrices s),
                          showAddModal := False,
                          form := f\<lparr> f_price := [], f_shares := [] \<rparr> \<rparr>))
         | _ \<Rightarrow> None))"

subsection \<open>Concrete readings of the platform functions\<close>

text \<open>
  For evaluating examples: \<open>parseDecimal\<close> reads an optional sign, digits and an optional
  fraction, as \<^verbatim>\<open>parseFloat\<close> does on a text without leading blanks and without an
  exponent, and ignores what follows; \<open>isoDateTime\<close> reads the date-only form
  \<^verbatim>\<open>YYYY-MM-DD\<close> that a date field holds and gives the milliseconds from 1970-01-01 to
  that day's midnight in UTC.
\<close>

definition isDigit :: "char \<Rightarrow> bool" where
  "isDigit c = (48 \<le> (of_char c :: nat) \<and> (of_char c :: nat) \<le> 57)"

definition digitsValue :: "string \<Rightarrow> nat" where
  "digitsValue ds = foldl (\<lambda>n c. 10 * n + ((of_char c :: nat) - 48)) 0 ds"

definition parseDecimal :: "string \<Rightarrow> real option" where
  "parseDecimal s =
     (let (neg, body) =
            (case s of
               [] \<Rightarrow> (False, s)
             | c # cs \<Rightarrow> if c = CHR ''-'' then (True, cs)
                         else if c = CHR ''+'' then (False, cs) else (False, s));
          ip = takeWhile isDigit body;
          rest = dropWhile isDigit body;
          fp = (case rest of
                  [] \<Rightarrow> []
                | c # cs \<Rightarrow> if c = CHR ''.'' then takeWhile isDigit cs else [])
      in if ip = [] \<and> fp = [] then None
         else (let v = real (digitsValue ip) + real (digitsValue fp) / 10 ^ length fp
               in Some (if neg then - v else v)))"

definition daysInMonth :: "int \<Rightarrow> int \<Rightarrow> int" where
  "daysInMonth y m =
     (if m = 2
      then (if y mod 400 = 0 then 29 else if y mod 100 = 0 then 28
            else if y mod 4 = 0 then 29 else 28)
      else if m = 4 \<or> m = 6 \<or> m = 9 \<or> m = 11 then 30 else 31)"

definition daysFromCivil :: "int \<Rightarrow> int \<Rightarrow> int \<Rightarrow> int" where
  "daysFromCivil y m d =
     (let y1 = (if m \<le> 2 then y - 1 else y);
          era = y1 div 400;
          yoe = y1 - era * 400;
          mp = (m + 9) mod 12;
          doy = (153 * mp + 2) div 5 + d - 1;
          doe = yoe * 365 + yoe div 4 - yoe div 100 + doy
      in era * 146097 + doe - 719468)"

definition isoDateTime :: "string \<Rightarrow> int option" where
  "isoDateTime s =
     (if length s = 10 \<and> s ! 4 = CHR ''-'' \<and> s ! 7 = CHR ''-''
         \<and> list_all isDigit (take 4 s @ take 2 (drop 5 s) @ drop 8 s)
      then (let y = int (digitsValue (take 4 s));
                m = int (digitsValue (take 2 (drop 5 s)));
                d = int (digitsValue (drop 8 s))
            in if 1 \<le> m \<and> m \<le> 12 \<and> 1 \<le> d \<and> d \<le> daysInMonth y m
               then Some (daysFromCivil y m d * 86400000) else None)
      else None)"

section \<open>Example data\<close>

text \<open>
  \<open>tx\<close> is a Taiwan-market stock transaction with the given date, ticker, side, share count
  and settlement amount, free of fee and tax. \<open>initialState\<close> is the component's initial
  state (empty log, default settings, no manual price) with the entry dialog open on a
  filled form. The three transactions are what \<^const>\<open>handleAddTransaction\<close> builds, under the
  default settings and in exact arithmetic, from a form with price \<^verbatim>\<open>-5\<close>, with price \<^verbatim>\<open>0\<close>, and with
  \<^verbatim>\<open>0.0000005\<close> shares.
\<close>

definition tx :: "string \<Rightarrow> string \<Rightarrow> TradeType \<Rightarrow> real \<Rightarrow> real \<Rightarrow> Transaction" where
  "tx d k ty n amount =
     \<lparr> t_id = d, t_date = d, t_ticker = k, t_name = k, t_type = ty, t_market = TW,
       t_price = amount / n, t_shares = n, t_isETF = False, t_fee = 0, t_tax = 0,
       t_totalAmount = amount \<rparr>"

definition initialState :: "Form \<Rightarrow> AppState" where
  "initialState f =
     \<lparr> transactions = [], settings = DEFAULT_SETTINGS, manualPrices = Map.empty,
       showAddModal = True, form = f \<rparr>"

definition negativeBuy :: Transaction where
  "negativeBuy =
     \<lparr> t_id = ''1700000000000'', t_date = ''2024-01-01'', t_ticker = ''2330'',
       t_name = ''2330'', t_type = Buy, t_market = TW, t_price = - 5, t_shares = 10,
       t_isETF = False, t_fee = 20, t_tax = 0, t_totalAmount = - 30 \<rparr>"

definition zeroPriceBuy :: Transaction where
  "zeroPriceBuy =
     \<lparr> t_id = ''1700000000000'', t_date = ''2024-01-01'', t_ticker = ''AAPL'',
       t_name = ''AAPL'', t_type = Buy, t_market = US, t_price = 0, t_shares = 10,
       t_isETF = False, t_fee = 0, t_tax = 0, t_totalAmount = 0 \<rparr>"

definition tinyBuy :: Transaction where
  "tinyBuy =
     \<lparr> t_id = ''1700000000000'', t_date = ''2024-01-01'', t_ticker = ''AAPL'',
       t_name = ''AAPL'', t_type = Buy, t_market = US, t_price = 100, t_shares = 0.0000005,
       t_isETF = False, t_fee = 0.00000005, t_tax = 0, t_totalAmount = 0.00005005 \<rparr>"

section \<open>Properties of the calculator\<close>

lemma market_neq_TW [simp]: "(m \<noteq> TW) = (m = US)"
  by (cases m) simp_all

lemma type_neq_Buy [simp]: "(ty \<noteq> Buy) = (ty = Sell)"
  by (cases ty) simp_all

lemma calc_fee:
  "fee (calculateTransactionAmount ar cfg ty m p s e) = spec_fee ar cfg m (fmul ar p s)"
  by (cases m) (simp_all add: calculateTransactionAmount_def spec_fee_def Math_floor_def Let_def)

lemma calc_tax:
  "tax (calculateTransactionAmount ar cfg ty m p s e) = spec_tax ar cfg ty m e (fmul ar p s)"
  by (cases m; cases ty)
     (simp_all add: calculateTransactionAmount_def spec_tax_def Math_floor_def Let_def)



subsection \<open>The calculator under binary64 rounding\<close>

text \<open>
  Where a real scaled by a power of two lies between \<open>2 ^ 52\<close> and \<open>2 ^ 53\<close>, its nearest
  binary64 number is the scaled real rounded to an integer and scaled back.
\<close>

lemma round64_normal:
  fixes x :: real and n :: nat
  assumes lo: "2 ^ 52 \<le> x * 2 ^ n" and hi: "x * 2 ^ n < 2 ^ 53"
  shows "round64 x = of_int (roundHalfEven (x * 2 ^ n)) / 2 ^ n"
proof -
  have pos: "0 < x"
  proof (rule ccontr)
    assume "\<not> 0 < x"
    then have "x * 2 ^ n \<le> 0" by (simp add: mult_nonpos_nonneg)
    with lo have "(2::real) ^ 52 \<le> 0" by linarith
    then show False by simp
  qed
  have p1: "2 powr (52 - real n) \<le> x"
  proof -
    have "2 powr (52 - real n) = 2 ^ 52 / 2 ^ n"
      by (simp add: powr_diff powr_realpow)
    also have "\<dots> \<le> x" using lo by (simp add: field_simps)
    finally show ?thesis .
  qed
  have p2: "x < 2 powr (52 - real n + 1)"
  proof -
    have "2 powr (52 - real n + 1) = 2 ^ 53 / 2 ^ n"
      by (simp add: powr_diff powr_add powr_realpow)
    moreover have "x < 2 ^ 53 / 2 ^ n" using hi by (simp add: field_simps)
    ultimately show ?thesis by simp
  qed
  have fl: "\<lfloor>log 2 x\<rfloor> = 52 - int n"
    using pos p1 p2 floor_log_eq_powr_iff [of x 2 "52 - int n"] by simp
  have "real_of_int \<lfloor>log 2 x\<rfloor> - 52 = - real n"
    using fl by simp
  then have e: "2 powr (real_of_int \<lfloor>log 2 x\<rfloor> - 52) = 1 / 2 ^ n"
    by (simp add: powr_minus powr_realpow inverse_eq_divide)
  show ?thesis
    using pos by (simp add: round64_def Let_def e)
qed

text \<open>
  A sell of 100000 shares at 0.57 on the Taiwan market, stock rate 0.003, price and rate
  being the binary64 numbers nearest to these decimals. The machine's gross amount is
  56999.99999999999 and its product with the rate 170.99999999999997, so the tax is 170;
  in exact arithmetic the product is 171 and so is the tax.
\<close>

lemma tax_of_rounded_product:
  "tax (calculateTransactionAmount ieeeArith
          (DEFAULT_SETTINGS\<lparr> twTaxRateStock := round64 (3 / 1000) \<rparr>)
          Sell TW (round64 (57 / 100)) 100000 False) = 170"
proof -
  have s1: "round64 (57 / 100) = 5134103575202365 / 9007199254740992"
    using round64_normal [of "57 / 100" 53] by (simp add: roundHalfEven_def Let_def)
  have s2: "round64 (3 / 1000) = 3458764513820541 / 1152921504606846976"
    using round64_normal [of "3 / 1000" 61] by (simp add: roundHalfEven_def Let_def)
  have s3: "round64 (5134103575202365 / 9007199254740992 * 100000)
              = 7834020347903999 / 137438953472"
    using round64_normal [of "5134103575202365 / 9007199254740992 * 100000" 37]
    by (simp add: roundHalfEven_def Let_def)
  have s4: "round64 (7834020347903999 / 137438953472
                       * (3458764513820541 / 1152921504606846976))
              = 6016527627190271 / 35184372088832"
    using round64_normal
      [of "7834020347903999 / 137438953472 * (3458764513820541 / 1152921504606846976)" 45]
    by (simp add: roundHalfEven_def Let_def)
  have "\<lfloor>round64 (round64 (round64 (57 / 100) * 100000) * round64 (3 / 1000))\<rfloor> = (170::int)"
    by (simp only: s1 s2 s3 s4) simp
  then show ?thesis
    by (simp add: calculateTransactionAmount_def ieeeArith_def Math_floor_def Let_def
          DEFAULT_SETTINGS_def)
qed

lemma tax_of_exact_product:
  "tax (calculateTransactionAmount exactArith DEFAULT_SETTINGS Sell TW (57 / 100) 100000 False)
     = 171"
  by (simp add: calculateTransactionAmount_def exactArith_def Math_floor_def Let_def
        DEFAULT_SETTINGS_def)

section \<open>One step of the replay\<close>

lemma replay_Nil: "replay [] = emptyReplay"
  by (simp add: replay_def)

lemma replay_snoc: "replay (xs @ [t]) = processTrans (replay xs) t"
  by (simp add: replay_def)

lemma tempHoldings_processTrans:
  "tempHoldings (processTrans st t) k =
     (if k = t_ticker t
      then Some (normalize (fst (applyTrade t (holdingFor st t) (realizedFor st t))))
      else tempHoldings st k)"
  by (simp add: processTrans_def Let_def split_beta)

lemma tempRealized_processTrans:
  "tempRealized (processTrans st t) k =
     (if k = t_ticker t
      then Some (snd (applyTrade t (holdingFor st t) (realizedFor st t)))
      else tempRealized st k)"
  by (simp add: processTrans_def Let_def split_beta)

text \<open>The objects the loop body works on carry the numbers the accumulators show.\<close>

lemma h_shares_holdingFor: "h_shares (holdingFor st t) = sharesOf st (t_ticker t)"
  by (simp add: holdingFor_def sharesOf_def initHolding_def split: option.splits)

lemma h_totalCost_holdingFor: "h_totalCost (holdingFor st t) = totalCostBasisOf st (t_ticker t)"
  by (simp add: holdingFor_def totalCostBasisOf_def initHolding_def split: option.splits)

lemma r_realizedPL_realizedFor: "r_realizedPL (realizedFor st t) = realizedPLOf st (t_ticker t)"
  by (simp add: realizedFor_def realizedPLOf_def initRealized_def split: option.splits)

lemma r_totalCost_realizedFor:
  "r_totalCost (realizedFor st t) = totalCostRetiredOf st (t_ticker t)"
  by (simp add: realizedFor_def totalCostRetiredOf_def initRealized_def split: option.splits)

lemma r_totalRevenue_realizedFor:
  "r_totalRevenue (realizedFor st t) = totalRevenueOf st (t_ticker t)"
  by (simp add: realizedFor_def totalRevenueOf_def initRealized_def split: option.splits)

lemma r_tradeCount_realizedFor: "r_tradeCount (realizedFor st t) = tradeCountOf st (t_ticker t)"
  by (simp add: realizedFor_def tradeCountOf_def initRealized_def split: option.splits)

lemmas for_views = h_shares_holdingFor h_totalCost_holdingFor r_realizedPL_realizedFor
  r_totalCost_realizedFor r_totalRevenue_realizedFor r_tradeCount_realizedFor

lemma views_other_ticker:
  assumes "k \<noteq> t_ticker t"
  shows "sharesOf (processTrans st t) k = sharesOf st k"
    and "totalCostBasisOf (processTrans st t) k = totalCostBasisOf st k"
    and "realizedPLOf (processTrans st t) k = realizedPLOf st k"
    and "totalCostRetiredOf (processTrans st t) k = totalCostRetiredOf st k"
    and "totalRevenueOf (processTrans st t) k = totalRevenueOf st k"
    and "tradeCountOf (processTrans st t) k = tradeCountOf st k"
  using assms
  by (simp_all add: sharesOf_def totalCostBasisOf_def realizedPLOf_def totalCostRetiredOf_def
        totalRevenueOf_def tradeCountOf_def tempHoldings_processTrans tempRealized_processTrans)

lemma views_same_ticker:
  "sharesOf (processTrans st t) (t_ticker t) =
     h_shares (normalize (fst (applyTrade t (holdingFor st t) (realizedFor st t))))"
  "totalCostBasisOf (processTrans st t) (t_ticker t) =
     h_totalCost (normalize (fst (applyTrade t (holdingFor st t) (realizedFor st t))))"
  "realizedPLOf (processTrans st t) (t_ticker t) =
     r_realizedPL (snd (applyTrade t (holdingFor st t) (realizedFor st t)))"
  "totalCostRetiredOf (processTrans st t) (t_ticker t) =
     r_totalCost (snd (applyTrade t (holdingFor st t) (realizedFor st t)))"
  "totalRevenueOf (processTrans st t) (t_ticker t) =
     r_totalRevenue (snd (applyTrade t (holdingFor st t) (realizedFor st t)))"
  "tradeCountOf (processTrans st t) (t_ticker t) =
     r_tradeCount (snd (applyTrade t (holdingFor st t) (realizedFor st t)))"
  by (simp_all add: sharesOf_def totalCostBasisOf_def realizedPLOf_def totalCostRetiredOf_def
        totalRevenueOf_def tradeCountOf_def tempHoldings_processTrans tempRealized_processTrans)

text \<open>The three branches of the trade statement.\<close>

lemma applyTrade_buy:
  assumes "t_type t = Buy"
  shows "applyTrade t h r =
           (h\<lparr> h_totalCost := h_totalCost h + t_totalAmount t,
               h_shares := h_shares h + t_shares t \<rparr>, r)"
  using assms by (simp add: applyTrade_def)

lemma applyTrade_sell_open:
  assumes "t_type t = Sell" and "h_shares h > 0"
  shows "applyTrade t h r =
           (h\<lparr> h_totalCost := h_totalCost h - h_totalCost h / h_shares h * t_shares t,
               h_shares := h_shares h - t_shares t \<rparr>,
            r\<lparr> r_realizedPL := r_realizedPL r
                  + (t_totalAmount t - h_totalCost h / h_shares h * t_shares t),
               r_totalCost := r_totalCost r + h_totalCost h / h_shares h * t_shares t,
               r_totalRevenue := r_totalRevenue r + t_totalAmount t,
               r_tradeCount := r_tradeCount r + 1 \<rparr>)"
  using assms by (simp add: applyTrade_def Let_def)

lemma applyTrade_sell_closed:
  assumes "t_type t = Sell" and "\<not> h_shares h > 0"
  shows "applyTrade t h r = (h, r)"
  using assms by (simp add: applyTrade_def)

lemmas replay_defs = replay_def processTrans_def holdingFor_def realizedFor_def initHolding_def
  initRealized_def applyTrade_def normalize_def emptyReplay_def

lemmas view_defs = sharesOf_def totalCostBasisOf_def realizedPLOf_def totalCostRetiredOf_def
  totalRevenueOf_def tradeCountOf_def

lemmas iso_defs = isoDateTime_def isDigit_def digitsValue_def daysInMonth_def
  daysFromCivil_def Let_def

lemmas sort_defs = sortedTrans_def Array_sort_def comesAfter_def compareDates_def

text \<open>
  Claim C1. A sell processed while the ticker's open shares are positive performs the
  weighted-average retirement step. With avgCost = totalCostBasis / shares and
  costRetired = avgCost times the shares sold, the step adds settlementAmount - costRetired
  to realizedPL, costRetired to the retired cost, settlementAmount to totalRevenue and 1 to
  tradeCount; the trade statement leaves totalCostBasis - costRetired and
  shares - tradeShares in the open position, so costRetired plus the new cost basis is the
  previous cost basis. The position stored for the ticker is that one, passed through the
  near-zero normalization that ends the loop body.
\<close>

theorem sell_retires_at_average_cost:
  assumes sell: "t_type t = Sell"
    and held: "sharesOf st (t_ticker t) > 0"
  defines "k \<equiv> t_ticker t"
  defines "costRetired \<equiv> totalCostBasisOf st k / sharesOf st k * t_shares t"
  defines "h1 \<equiv> fst (applyTrade t (holdingFor st t) (realizedFor st t))"
  defines "st' \<equiv> processTrans st t"
  shows "realizedPLOf st' k = realizedPLOf st k + (t_totalAmount t - costRetired)
       \<and> totalCostRetiredOf st' k = totalCostRetiredOf st k + costRetired
       \<and> totalRevenueOf st' k = totalRevenueOf st k + t_totalAmount t
       \<and> tradeCountOf st' k = tradeCountOf st k + 1
       \<and> h_totalCost h1 = totalCostBasisOf st k - costRetired
       \<and> h_shares h1 = sharesOf st k - t_shares t
       \<and> costRetired + h_totalCost h1 = totalCostBasisOf st k
       \<and> tempHoldings st' k = Some (normalize h1)"
proof -
  have open_pos: "h_shares (holdingFor st t) > 0"
    using held by (simp add: h_shares_holdingFor)
  note ap = applyTrade_sell_open [OF sell open_pos, of "realizedFor st t"]
  show ?thesis
    unfolding st'_def h1_def costRetired_def k_def
    by (simp add: ap views_same_ticker tempHoldings_processTrans for_views)
qed

text \<open>
  Buy 10 shares for 1000, then sell 4 for 500: the sale retires 400 of cost, realizes 100,
  and leaves 6 shares at a cost basis of 600.
\<close>

theorem sell_retires_at_average_cost_witness:
  "t_type (tx ''2024-01-02'' ''2330'' Sell 4 500) = Sell
   \<and> sharesOf (replay [tx ''2024-01-01'' ''2330'' Buy 10 1000]) ''2330'' = 10
   \<and> totalCostBasisOf (replay [tx ''2024-01-01'' ''2330'' Buy 10 1000]) ''2330'' = 1000
   \<and> realizedPLOf (processTrans (replay [tx ''2024-01-01'' ''2330'' Buy 10 1000])
        (tx ''2024-01-02'' ''2330'' Sell 4 500)) ''2330'' = 100
   \<and> tradeCountOf (processTrans (replay [tx ''2024-01-01'' ''2330'' Buy 10 1000])
        (tx ''2024-01-02'' ''2330'' Sell 4 500)) ''2330'' = 1
   \<and> tempHoldings (processTrans (replay [tx ''2024-01-01'' ''2330'' Buy 10 1000])
        (tx ''2024-01-02'' ''2330'' Sell 4 500)) ''2330''
      = Some \<lparr> h_ticker = ''2330'', h_name = ''2330'', h_market = TW, h_shares = 6,
               h_totalCost = 600, h_isETF = False \<rparr>"
  using sell_retires_at_average_cost
    [of "tx ''2024-01-02'' ''2330'' Sell 4 500" "replay [tx ''2024-01-01'' ''2330'' Buy 10 1000]"]
  by (simp add: replay_defs view_defs tx_def)

section \<open>The sorted log\<close>

lemma mset_insertBy: "mset (insertBy c x ys) = add_mset x (mset ys)"
  by (induction ys) simp_all

lemma mset_Array_sort: "mset (Array_sort c xs) = mset xs"
  by (induction xs) (simp_all add: Array_sort_def mset_insertBy)

lemma set_Array_sort: "set (Array_sort c xs) = set xs"
  by (metis mset_Array_sort set_mset_mset)

lemma mset_sortedTrans: "mset (sortedTrans g ts) = mset ts"
  by (simp add: sortedTrans_def mset_Array_sort)

lemma set_sortedTrans: "set (sortedTrans g ts) = set ts"
  by (metis mset_sortedTrans set_mset_mset)

lemma comesAfter_compareDates:
  "g (t_date a) = Some x \<Longrightarrow> g (t_date b) = Some y \<Longrightarrow>
   comesAfter (compareDates g a b) = (\<not> x \<le> y)"
  by (auto simp add: comesAfter_def compareDates_def)

lemma compareDates_same_date:
  "t_date a = t_date b \<Longrightarrow> \<not> comesAfter (compareDates g a b)"
  by (cases "g (t_date b)") (simp_all add: comesAfter_def compareDates_def)

text \<open>On a log whose dates are all valid the sort is the library's stable sort by time.\<close>

lemma insertBy_insort_key:
  assumes "g (t_date x) \<noteq> None" and "\<forall>y\<in>set ys. g (t_date y) \<noteq> None"
  shows "insertBy (compareDates g) x ys = insort_key (\<lambda>t. the (g (t_date t))) x ys"
  using assms by (induction ys) (auto simp: comesAfter_compareDates)

lemma Array_sort_sort_key:
  assumes "\<forall>y\<in>set xs. g (t_date y) \<noteq> None"
  shows "Array_sort (compareDates g) xs = sort_key (\<lambda>t. the (g (t_date t))) xs"
  using assms
proof (induction xs)
  case Nil
  then show ?case by (simp add: Array_sort_def)
next
  case (Cons x xs)
  have "Array_sort (compareDates g) (x # xs)
          = insertBy (compareDates g) x (Array_sort (compareDates g) xs)"
    by (simp add: Array_sort_def)
  also have "\<dots> = insort_key (\<lambda>t. the (g (t_date t))) x (Array_sort (compareDates g) xs)"
    using Cons.prems by (intro insertBy_insort_key) (simp_all add: set_Array_sort)
  finally show ?case using Cons by simp
qed

lemma sorted_wrt_times:
  assumes "\<forall>t\<in>set xs. g (t_date t) \<noteq> None"
    and "sorted (map (\<lambda>t. the (g (t_date t))) xs)"
  shows "sorted_wrt (\<lambda>a b. \<exists>x y. g (t_date a) = Some x \<and> g (t_date b) = Some y \<and> x \<le> y) xs"
  using assms by (induction xs) fastforce+

lemma sortedTrans_sorted:
  assumes "\<forall>t\<in>set ts. g (t_date t) \<noteq> None"
  shows "sorted_wrt (\<lambda>a b. \<exists>x y. g (t_date a) = Some x \<and> g (t_date b) = Some y \<and> x \<le> y)
           (sortedTrans g ts)"
proof -
  have eq: "sortedTrans g ts = sort_key (\<lambda>t. the (g (t_date t))) ts"
    using assms by (simp add: sortedTrans_def Array_sort_sort_key)
  show ?thesis
    using assms by (intro sorted_wrt_times) (simp_all add: set_sortedTrans, simp add: eq)
qed

lemma sortedTrans_stable:
  assumes "\<forall>t\<in>set ts. g (t_date t) \<noteq> None"
  shows "filter (\<lambda>t. g (t_date t) = Some v) (sortedTrans g ts)
           = filter (\<lambda>t. g (t_date t) = Some v) ts"
proof -
  have eq: "sortedTrans g ts = sort_key (\<lambda>t. the (g (t_date t))) ts"
    using assms by (simp add: sortedTrans_def Array_sort_sort_key)
  have same: "filter (\<lambda>t. g (t_date t) = Some v) xs = filter (\<lambda>t. the (g (t_date t)) = v) xs"
    if "set xs \<subseteq> set ts" for xs
    using that assms by (intro filter_cong) auto
  show ?thesis
    using same [of ts] same [of "sortedTrans g ts"]
    by (simp add: set_sortedTrans) (simp add: eq sort_key_stable)
qed

section \<open>Invariants of the replay\<close>

lemma normalize_cases:
  "(h_shares (normalize h) = 0 \<and> h_totalCost (normalize h) = 0)
     \<or> h_shares (normalize h) > 0.000001"
  by (simp add: normalize_def)

lemma replay_closed_or_open:
  assumes "tempHoldings (replay xs) k = Some h"
  shows "(h_shares h = 0 \<and> h_totalCost h = 0) \<or> h_shares h > 0.000001"
  using assms
proof (induction xs arbitrary: h rule: rev_induct)
  case Nil
  then show ?case by (simp add: replay_Nil emptyReplay_def)
next
  case (snoc t xs)
  show ?case
  proof (cases "k = t_ticker t")
    case True
    with snoc.prems show ?thesis
      using normalize_cases by (auto simp add: replay_snoc tempHoldings_processTrans)
  next
    case False
    with snoc show ?thesis
      by (simp add: replay_snoc tempHoldings_processTrans)
  qed
qed

lemma sharesOf_cases:
  "(sharesOf (replay xs) k = 0 \<and> totalCostBasisOf (replay xs) k = 0)
     \<or> sharesOf (replay xs) k > 0.000001"
  using replay_closed_or_open [of xs k]
  by (auto simp: sharesOf_def totalCostBasisOf_def split: option.splits)


text \<open>Retiring cost for no more shares than are held leaves a non-negative pool.\<close>

lemma retire_nonneg:
  fixes c s q :: real
  assumes "0 \<le> c" "0 < s" "q \<le> s"
  shows "0 \<le> c - c / s * q"
proof -
  have "c - c / s * q = c * ((s - q) / s)"
    using assms by (simp add: field_simps)
  moreover have "0 \<le> (s - q) / s" using assms by simp
  ultimately show ?thesis using assms by simp
qed

lemma processTrans_cost_nonneg:
  assumes "0 \<le> totalCostBasisOf st (t_ticker t)"
    and "t_type t = Buy \<Longrightarrow> 0 \<le> t_totalAmount t"
  shows "0 \<le> totalCostBasisOf (processTrans st t) (t_ticker t)"
proof (cases "t_type t")
  case Buy
  then show ?thesis using assms
    by (simp add: views_same_ticker applyTrade_buy normalize_def for_views)
next
  case Sell
  show ?thesis
  proof (cases "sharesOf st (t_ticker t) > 0")
    case True
    then have op: "h_shares (holdingFor st t) > 0" by (simp add: for_views)
    show ?thesis
      using assms True
        retire_nonneg [of "totalCostBasisOf st (t_ticker t)" "sharesOf st (t_ticker t)" "t_shares t"]
      by (simp add: views_same_ticker applyTrade_sell_open [OF Sell op] normalize_def for_views)
  next
    case False
    then have op: "\<not> h_shares (holdingFor st t) > 0" by (simp add: for_views)
    show ?thesis using assms
      by (simp add: views_same_ticker applyTrade_sell_closed [OF Sell op] normalize_def for_views)
  qed
qed

lemma replay_cost_nonneg:
  assumes "\<forall>t\<in>set xs. t_type t = Buy \<longrightarrow> 0 \<le> t_totalAmount t"
  shows "0 \<le> totalCostBasisOf (replay xs) k"
  using assms
proof (induction xs arbitrary: k rule: rev_induct)
  case Nil
  then show ?case by (simp add: replay_Nil emptyReplay_def totalCostBasisOf_def)
next
  case (snoc t xs)
  have IH: "0 \<le> totalCostBasisOf (replay xs) k" for k
    using snoc.IH snoc.prems by simp
  show ?case
  proof (cases "k = t_ticker t")
    case True
    then show ?thesis
      using processTrans_cost_nonneg [of "replay xs" t] IH snoc.prems
      by (simp add: replay_snoc)
  next
    case False
    then show ?thesis using IH by (simp add: replay_snoc views_other_ticker)
  qed
qed

lemmas parse_defs = parseDecimal_def isDigit_def digitsValue_def

lemmas calc_defs = calculateTransactionAmount_def Math_floor_def DEFAULT_SETTINGS_def
  exactArith_def

text \<open>
  The entry form accepts a negative price. Submitting a buy of 10 shares at \<^verbatim>\<open>-5\<close> on the
  Taiwan market stores a transaction with fee 20 and settlement amount -30; replaying that
  log leaves the ticker with 10 open shares and a total cost basis of -30.
\<close>

theorem negative_buy_gives_negative_cost_basis:
  "map_option transactions
     (handleAddTransaction exactArith parseDecimal ''1700000000000''
        (initialState \<lparr> f_date = ''2024-01-01'', f_ticker = ''2330'', f_name = [],
                         f_type = Buy, f_market = TW, f_price = ''-5'', f_shares = ''10'',
                         f_isETF = False \<rparr>))
     = Some [negativeBuy]
   \<and> sortedTrans isoDateTime [negativeBuy] = [negativeBuy]
   \<and> totalCostBasisOf (replay [negativeBuy]) ''2330'' = - 30
   \<and> sharesOf (replay [negativeBuy]) ''2330'' = 10"
  by (simp add: handleAddTransaction_def initialState_def negativeBuy_def parse_defs calc_defs
        toUpperCase_def sortedTrans_def Array_sort_def replay_defs sharesOf_def
        totalCostBasisOf_def)

text \<open>
  Claim C3, amended. For every transaction log and every ticker, after each transaction
  processed in the replay (normalization included) the ticker's open shares are at least 0,
  and whenever they are at most 0.000001 both the shares and the total cost basis are
  exactly 0; this covers a sell of all held shares and an oversized sell. The total cost
  basis is at least 0 provided no buy of the log has a negative settlement amount.
\<close>

theorem replay_shares_and_cost_nonneg:
  assumes "sortedTrans getTime ts = pre @ post"
  shows "0 \<le> sharesOf (replay pre) k
       \<and> (sharesOf (replay pre) k \<le> 0.000001 \<longrightarrow>
            sharesOf (replay pre) k = 0 \<and> totalCostBasisOf (replay pre) k = 0)
       \<and> ((\<forall>t\<in>set ts. t_type t = Buy \<longrightarrow> 0 \<le> t_totalAmount t) \<longrightarrow>
            0 \<le> totalCostBasisOf (replay pre) k)"
proof -
  have sub: "set pre \<subseteq> set ts"
    using assms set_sortedTrans [of getTime ts] by auto
  have "0 \<le> totalCostBasisOf (replay pre) k"
    if "\<forall>t\<in>set ts. t_type t = Buy \<longrightarrow> 0 \<le> t_totalAmount t"
    using that sub by (intro replay_cost_nonneg) blast
  then show ?thesis
    using sharesOf_cases [of pre k] by auto
qed

text \<open>
  A log entered out of order: a sell of 20 shares dated after a buy of 10 for 1000. The
  oversized sell closes the position at exactly 0 shares and 0 cost.
\<close>

theorem replay_shares_and_cost_nonneg_witness:
  "sortedTrans isoDateTime
     [tx ''2024-01-02'' ''2330'' Sell 20 2400, tx ''2024-01-01'' ''2330'' Buy 10 1000]
     = [tx ''2024-01-01'' ''2330'' Buy 10 1000, tx ''2024-01-02'' ''2330'' Sell 20 2400] @ []
   \<and> 0 \<le> t_totalAmount (tx ''2024-01-01'' ''2330'' Buy 10 1000)
   \<and> sharesOf (replay [tx ''2024-01-01'' ''2330'' Buy 10 1000,
                        tx ''2024-01-02'' ''2330'' Sell 20 2400]) ''2330'' = 0
   \<and> totalCostBasisOf (replay [tx ''2024-01-01'' ''2330'' Buy 10 1000,
                        tx ''2024-01-02'' ''2330'' Sell 20 2400]) ''2330'' = 0"
  using replay_shares_and_cost_nonneg [of isoDateTime
      "[tx ''2024-01-02'' ''2330'' Sell 20 2400, tx ''2024-01-01'' ''2330'' Buy 10 1000]"
      "[tx ''2024-01-01'' ''2330'' Buy 10 1000, tx ''2024-01-02'' ''2330'' Sell 20 2400]" "[]"
      "''2330''"]
  by (simp add: sort_defs iso_defs replay_defs view_defs tx_def)

section \<open>Sells against a closed position\<close>

lemma sell_on_closed:
  assumes "t_type t = Sell" and "sharesOf (replay pre) (t_ticker t) = 0"
  shows "sharesOf (processTrans (replay pre) t) k = sharesOf (replay pre) k"
    and "totalCostBasisOf (processTrans (replay pre) t) k = totalCostBasisOf (replay pre) k"
    and "realizedPLOf (processTrans (replay pre) t) k = realizedPLOf (replay pre) k"
    and "totalCostRetiredOf (processTrans (replay pre) t) k = totalCostRetiredOf (replay pre) k"
    and "totalRevenueOf (processTrans (replay pre) t) k = totalRevenueOf (replay pre) k"
    and "tradeCountOf (processTrans (replay pre) t) k = tradeCountOf (replay pre) k"
proof -
  have op: "\<not> h_shares (holdingFor (replay pre) t) > 0"
    using assms(2) by (simp add: for_views)
  have cost0: "totalCostBasisOf (replay pre) (t_ticker t) = 0"
    using sharesOf_cases [of pre "t_ticker t"] assms(2) by auto
  note ap = applyTrade_sell_closed [OF assms(1) op]
  show "sharesOf (processTrans (replay pre) t) k = sharesOf (replay pre) k"
    using assms(2)
    by (cases "k = t_ticker t")
       (simp_all add: views_other_ticker views_same_ticker ap normalize_def for_views)
  show "totalCostBasisOf (processTrans (replay pre) t) k = totalCostBasisOf (replay pre) k"
    using assms(2) cost0
    by (cases "k = t_ticker t")
       (simp_all add: views_other_ticker views_same_ticker ap normalize_def for_views)
  show "realizedPLOf (processTrans (replay pre) t) k = realizedPLOf (replay pre) k"
    by (cases "k = t_ticker t")
       (simp_all add: views_other_ticker views_same_ticker ap for_views)
  show "totalCostRetiredOf (processTrans (replay pre) t) k = totalCostRetiredOf (replay pre) k"
    by (cases "k = t_ticker t")
       (simp_all add: views_other_ticker views_same_ticker ap for_views)
  show "totalRevenueOf (processTrans (replay pre) t) k = totalRevenueOf (replay pre) k"
    by (cases "k = t_ticker t")
       (simp_all add: views_other_ticker views_same_ticker ap for_views)
  show "tradeCountOf (processTrans (replay pre) t) k = tradeCountOf (replay pre) k"
    by (cases "k = t_ticker t")
       (simp_all add: views_other_ticker views_same_ticker ap for_views)
qed

text \<open>
  Claim C4. In the replay of any log, a sell that arrives while its ticker has zero open
  shares (a ticker with no earlier buy, or a position already closed) leaves the ticker's
  shares and total cost basis and its realizedPL, retired cost, totalRevenue and tradeCount
  as they were, and likewise those of every other ticker; tradeCount is not incremented.
\<close>

theorem sell_on_closed_position_is_noop:
  assumes "sortedTrans getTime ts = pre @ t # post"
    and "t_type t = Sell"
    and "sharesOf (replay pre) (t_ticker t) = 0"
  shows "sharesOf (replay (pre @ [t])) k = sharesOf (replay pre) k
       \<and> totalCostBasisOf (replay (pre @ [t])) k = totalCostBasisOf (replay pre) k
       \<and> realizedPLOf (replay (pre @ [t])) k = realizedPLOf (replay pre) k
       \<and> totalCostRetiredOf (replay (pre @ [t])) k = totalCostRetiredOf (replay pre) k
       \<and> totalRevenueOf (replay (pre @ [t])) k = totalRevenueOf (replay pre) k
       \<and> tradeCountOf (replay (pre @ [t])) k = tradeCountOf (replay pre) k"
  using sell_on_closed [OF assms(2,3)] by (simp add: replay_snoc)

text \<open>
  Buy 10, sell 10, then sell 5 more: the last sell finds the position closed, and the
  realized figures stay at one trade and a gain of 200.
\<close>

theorem sell_on_closed_position_is_noop_witness:
  "sortedTrans isoDateTime
     [tx ''2024-01-03'' ''2330'' Sell 5 600, tx ''2024-01-01'' ''2330'' Buy 10 1000,
      tx ''2024-01-02'' ''2330'' Sell 10 1200]
     = [tx ''2024-01-01'' ''2330'' Buy 10 1000, tx ''2024-01-02'' ''2330'' Sell 10 1200]
         @ tx ''2024-01-03'' ''2330'' Sell 5 600 # []
   \<and> t_type (tx ''2024-01-03'' ''2330'' Sell 5 600) = Sell
   \<and> sharesOf (replay [tx ''2024-01-01'' ''2330'' Buy 10 1000,
                        tx ''2024-01-02'' ''2330'' Sell 10 1200]) ''2330'' = 0
   \<and> tradeCountOf (replay ([tx ''2024-01-01'' ''2330'' Buy 10 1000,
                        tx ''2024-01-02'' ''2330'' Sell 10 1200]
                        @ [tx ''2024-01-03'' ''2330'' Sell 5 600])) ''2330'' = 1
   \<and> realizedPLOf (replay ([tx ''2024-01-01'' ''2330'' Buy 10 1000,
                        tx ''2024-01-02'' ''2330'' Sell 10 1200]
                        @ [tx ''2024-01-03'' ''2330'' Sell 5 600])) ''2330'' = 200"
  using sell_on_closed_position_is_noop [of isoDateTime
      "[tx ''2024-01-03'' ''2330'' Sell 5 600, tx ''2024-01-01'' ''2330'' Buy 10 1000,
        tx ''2024-01-02'' ''2330'' Sell 10 1200]"
      "[tx ''2024-01-01'' ''2330'' Buy 10 1000, tx ''2024-01-02'' ''2330'' Sell 10 1200]"
      "tx ''2024-01-03'' ''2330'' Sell 5 600" "[]" "''2330''"]
  by (simp add: sort_defs iso_defs replay_defs view_defs tx_def)

section \<open>Buys only\<close>

lemma sum_filter_perm:
  assumes "mset xs = mset ys"
  shows "sum_list (map f (filter P xs)) = sum_list (map (f :: 'a \<Rightarrow> real) (filter P ys))"
proof -
  have "mset (map f (filter P xs)) = mset (map f (filter P ys))"
    using assms by (metis mset_filter mset_map)
  then show ?thesis by (metis sum_mset_sum_list)
qed

lemma buys_only_replay:
  assumes "\<forall>t\<in>set xs. t_ticker t = k \<longrightarrow> t_type t = Buy \<and> t_shares t > 0.000001"
  shows "sharesOf (replay xs) k = sum_list (map t_shares (filter (\<lambda>t. t_ticker t = k) xs))
       \<and> totalCostBasisOf (replay xs) k
           = sum_list (map t_totalAmount (filter (\<lambda>t. t_ticker t = k) xs))
       \<and> 0 \<le> sharesOf (replay xs) k"
  using assms
proof (induction xs rule: rev_induct)
  case Nil
  then show ?case by (simp add: replay_Nil emptyReplay_def sharesOf_def totalCostBasisOf_def)
next
  case (snoc t xs)
  then have IH:
    "sharesOf (replay xs) k = sum_list (map t_shares (filter (\<lambda>t. t_ticker t = k) xs))"
    "totalCostBasisOf (replay xs) k
       = sum_list (map t_totalAmount (filter (\<lambda>t. t_ticker t = k) xs))"
    "0 \<le> sharesOf (replay xs) k"
    by simp_all
  show ?case
  proof (cases "t_ticker t = k")
    case True
    with snoc.prems have buy: "t_type t = Buy" and big: "t_shares t > 0.000001" by simp_all
    show ?thesis
      using IH True big views_same_ticker(1,2) [of "replay xs" t]
      by (simp add: replay_snoc applyTrade_buy [OF buy] normalize_def for_views)
  next
    case False
    then have "k \<noteq> t_ticker t" by auto
    then show ?thesis using IH False by (simp add: replay_snoc views_other_ticker)
  qed
qed

text \<open>
  The normalization runs after a buy as well. A single buy of 0.0000005 shares at 100 on
  the US market, as the entry form stores it, is reset at once: after the replay the
  ticker shows 0 shares and 0 cost, not the 0.0000005 shares and 0.00005005 paid.
\<close>

theorem tiny_buy_is_reset:
  "map_option transactions
     (handleAddTransaction exactArith parseDecimal ''1700000000000''
        (initialState \<lparr> f_date = ''2024-01-01'', f_ticker = ''aapl'', f_name = [],
                         f_type = Buy, f_market = US, f_price = ''100'',
                         f_shares = ''0.0000005'', f_isETF = False \<rparr>))
     = Some [tinyBuy]
   \<and> sortedTrans isoDateTime [tinyBuy] = [tinyBuy]
   \<and> t_ticker tinyBuy = ''AAPL'' \<and> t_type tinyBuy = Buy
   \<and> t_shares tinyBuy = 0.0000005 \<and> t_totalAmount tinyBuy = 0.00005005
   \<and> sharesOf (replay [tinyBuy]) ''AAPL'' = 0
   \<and> totalCostBasisOf (replay [tinyBuy]) ''AAPL'' = 0"
  by (simp add: handleAddTransaction_def initialState_def tinyBuy_def parse_defs calc_defs
        toUpperCase_def sortedTrans_def Array_sort_def replay_defs sharesOf_def
        totalCostBasisOf_def)

text \<open>
  Claim C6, amended. For every transaction log in which a ticker has only buy
  transactions, each for more than 0.000001 shares, after the full replay that ticker's
  total cost basis is the sum of its buy settlement amounts and its shares are the sum of
  its buy share counts.
\<close>

theorem buys_only_cost_basis_conservation:
  assumes "\<forall>t\<in>set ts. t_ticker t = k \<longrightarrow> t_type t = Buy \<and> t_shares t > 0.000001"
  shows "sharesOf (replay (sortedTrans getTime ts)) k =
           sum_list (map t_shares (filter (\<lambda>t. t_ticker t = k) ts))
       \<and> totalCostBasisOf (replay (sortedTrans getTime ts)) k =
           sum_list (map t_totalAmount (filter (\<lambda>t. t_ticker t = k) ts))"
proof -
  have "\<forall>t\<in>set (sortedTrans getTime ts).
          t_ticker t = k \<longrightarrow> t_type t = Buy \<and> t_shares t > 0.000001"
    using assms by (simp add: set_sortedTrans)
  from buys_only_replay [OF this] show ?thesis
    by (simp add: sum_filter_perm [OF mset_sortedTrans])
qed

text \<open>
  Two buys of 100 shares, for 10100 and for 9900: 200 shares at a cost basis of 20000.
\<close>

theorem buys_only_cost_basis_conservation_witness:
  "t_type (tx ''2024-01-01'' ''2330'' Buy 100 10100) = Buy
   \<and> t_shares (tx ''2024-01-01'' ''2330'' Buy 100 10100) > 0.000001
   \<and> t_type (tx ''2024-01-02'' ''2330'' Buy 100 9900) = Buy
   \<and> t_shares (tx ''2024-01-02'' ''2330'' Buy 100 9900) > 0.000001
   \<and> sharesOf (replay (sortedTrans isoDateTime
        [tx ''2024-01-01'' ''2330'' Buy 100 10100, tx ''2024-01-02'' ''2330'' Buy 100 9900]))
        ''2330'' = 200
   \<and> totalCostBasisOf (replay (sortedTrans isoDateTime
        [tx ''2024-01-01'' ''2330'' Buy 100 10100, tx ''2024-01-02'' ''2330'' Buy 100 9900]))
        ''2330'' = 20000"
  using buys_only_cost_basis_conservation
    [of "[tx ''2024-01-01'' ''2330'' Buy 100 10100, tx ''2024-01-02'' ''2330'' Buy 100 9900]"
        "''2330''" isoDateTime]
  by (simp add: tx_def)

section \<open>Realized gains across closing and re-opening\<close>

lemma realized_step:
  "tradeCountOf (processTrans st t) k =
     tradeCountOf st k + (if t_type t = Sell \<and> k = t_ticker t \<and> sharesOf st k > 0 then 1 else 0)"
  "realizedPLOf (processTrans st t) k =
     realizedPLOf st k +
       (if t_type t = Sell \<and> k = t_ticker t \<and> sharesOf st k > 0
        then t_totalAmount t - totalCostBasisOf st k / sharesOf st k * t_shares t else 0)"
  "totalCostRetiredOf (processTrans st t) k =
     totalCostRetiredOf st k +
       (if t_type t = Sell \<and> k = t_ticker t \<and> sharesOf st k > 0
        then totalCostBasisOf st k / sharesOf st k * t_shares t else 0)"
  "totalRevenueOf (processTrans st t) k =
     totalRevenueOf st k +
       (if t_type t = Sell \<and> k = t_ticker t \<and> sharesOf st k > 0 then t_totalAmount t else 0)"
proof -
  have ap: "snd (applyTrade t (holdingFor st t) (realizedFor st t)) =
      (if t_type t = Sell \<and> sharesOf st (t_ticker t) > 0
       then (realizedFor st t)
              \<lparr> r_realizedPL := realizedPLOf st (t_ticker t) +
                   (t_totalAmount t
                      - totalCostBasisOf st (t_ticker t) / sharesOf st (t_ticker t) * t_shares t),
                r_totalCost := totalCostRetiredOf st (t_ticker t) +
                   totalCostBasisOf st (t_ticker t) / sharesOf st (t_ticker t) * t_shares t,
                r_totalRevenue := totalRevenueOf st (t_ticker t) + t_totalAmount t,
                r_tradeCount := tradeCountOf st (t_ticker t) + 1 \<rparr>
       else realizedFor st t)"
    by (cases "t_type t") (simp_all add: applyTrade_def Let_def for_views)
  show "tradeCountOf (processTrans st t) k =
     tradeCountOf st k + (if t_type t = Sell \<and> k = t_ticker t \<and> sharesOf st k > 0 then 1 else 0)"
    by (cases "k = t_ticker t") (simp_all add: views_other_ticker views_same_ticker ap for_views)
  show "realizedPLOf (processTrans st t) k =
     realizedPLOf st k +
       (if t_type t = Sell \<and> k = t_ticker t \<and> sharesOf st k > 0
        then t_totalAmount t - totalCostBasisOf st k / sharesOf st k * t_shares t else 0)"
    by (cases "k = t_ticker t") (simp_all add: views_other_ticker views_same_ticker ap for_views)
  show "totalCostRetiredOf (processTrans st t) k =
     totalCostRetiredOf st k +
       (if t_type t = Sell \<and> k = t_ticker t \<and> sharesOf st k > 0
        then totalCostBasisOf st k / sharesOf st k * t_shares t else 0)"
    by (cases "k = t_ticker t") (simp_all add: views_other_ticker views_same_ticker ap for_views)
  show "totalRevenueOf (processTrans st t) k =
     totalRevenueOf st k +
       (if t_type t = Sell \<and> k = t_ticker t \<and> sharesOf st k > 0 then t_totalAmount t else 0)"
    by (cases "k = t_ticker t") (simp_all add: views_other_ticker views_same_ticker ap for_views)
qed

text \<open>Four transactions of one date keep the order of the log.\<close>

lemma reopen_sorted:
  "sortedTrans g
     [b1\<lparr>t_date := d, t_ticker := k, t_type := Buy, t_shares := 10, t_totalAmount := 1000\<rparr>,
      s1\<lparr>t_date := d, t_ticker := k, t_type := Sell, t_shares := 10, t_totalAmount := 1200\<rparr>,
      b2\<lparr>t_date := d, t_ticker := k, t_type := Buy, t_shares := 10, t_totalAmount := 900\<rparr>,
      s2\<lparr>t_date := d, t_ticker := k, t_type := Sell, t_shares := 10, t_totalAmount := 800\<rparr>]
   = [b1\<lparr>t_date := d, t_ticker := k, t_type := Buy, t_shares := 10, t_totalAmount := 1000\<rparr>,
      s1\<lparr>t_date := d, t_ticker := k, t_type := Sell, t_shares := 10, t_totalAmount := 1200\<rparr>,
      b2\<lparr>t_date := d, t_ticker := k, t_type := Buy, t_shares := 10, t_totalAmount := 900\<rparr>,
      s2\<lparr>t_date := d, t_ticker := k, t_type := Sell, t_shares := 10, t_totalAmount := 800\<rparr>]"
  by (simp add: sortedTrans_def Array_sort_def compareDates_same_date)

text \<open>
  Claim C7. No step of the replay resets a realized accumulator: for every state,
  transaction and ticker, processing the transaction adds to the ticker's tradeCount,
  realizedPL, retired cost and totalRevenue the contribution of an effective sell on that
  ticker and nothing otherwise, so the figures accumulate over the ticker's whole history,
  across closing and re-opening. For the sequence buy 10 at total cost 1000, sell 10 at
  net proceeds 1200, buy 10 at total cost 900, sell 10 at net proceeds 800 (whatever the
  other fields, on one date, so in log order) the final state has realizedPL = 100,
  tradeCount = 2 and the position closed with shares = 0; the ticker is absent from the
  holdings and present in the realized gains with these figures.
\<close>

theorem realized_persists_across_reopen:
  fixes b1 s1 b2 s2 :: Transaction and d k :: string
  defines "txs \<equiv>
     [b1\<lparr>t_date := d, t_ticker := k, t_type := Buy, t_shares := 10, t_totalAmount := 1000\<rparr>,
      s1\<lparr>t_date := d, t_ticker := k, t_type := Sell, t_shares := 10, t_totalAmount := 1200\<rparr>,
      b2\<lparr>t_date := d, t_ticker := k, t_type := Buy, t_shares := 10, t_totalAmount := 900\<rparr>,
      s2\<lparr>t_date := d, t_ticker := k, t_type := Sell, t_shares := 10, t_totalAmount := 800\<rparr>]"
  shows "tradeCountOf (processTrans st t) j =
           tradeCountOf st j +
             (if t_type t = Sell \<and> j = t_ticker t \<and> sharesOf st j > 0 then 1 else 0)
       \<and> realizedPLOf (processTrans st t) j =
           realizedPLOf st j +
             (if t_type t = Sell \<and> j = t_ticker t \<and> sharesOf st j > 0
              then t_totalAmount t - totalCostBasisOf st j / sharesOf st j * t_shares t else 0)
       \<and> totalCostRetiredOf (processTrans st t) j =
           totalCostRetiredOf st j +
             (if t_type t = Sell \<and> j = t_ticker t \<and> sharesOf st j > 0
              then totalCostBasisOf st j / sharesOf st j * t_shares t else 0)
       \<and> totalRevenueOf (processTrans st t) j =
           totalRevenueOf st j +
             (if t_type t = Sell \<and> j = t_ticker t \<and> sharesOf st j > 0
              then t_totalAmount t else 0)
       \<and> realizedPLOf (replay (sortedTrans getTime txs)) k = 100
       \<and> tradeCountOf (replay (sortedTrans getTime txs)) k = 2
       \<and> sharesOf (replay (sortedTrans getTime txs)) k = 0
       \<and> totalCostBasisOf (replay (sortedTrans getTime txs)) k = 0
       \<and> holdings (derive ar getTime cfg mp txs) k = None
       \<and> map_option r_realizedPL (realizedGains (derive ar getTime cfg mp txs) k) = Some 100
       \<and> map_option r_tradeCount (realizedGains (derive ar getTime cfg mp txs) k) = Some 2"
proof -
  have srt: "sortedTrans getTime txs = txs"
    unfolding txs_def by (rule reopen_sorted)
  have ev: "realizedPLOf (replay txs) k = 100" "tradeCountOf (replay txs) k = 2"
    "sharesOf (replay txs) k = 0" "totalCostBasisOf (replay txs) k = 0"
    unfolding txs_def
    by (simp_all add: replay_defs sharesOf_def totalCostBasisOf_def realizedPLOf_def
          tradeCountOf_def Let_def)
  have fin: "holdings (derive ar getTime cfg mp txs) k = None"
    "map_option r_realizedPL (realizedGains (derive ar getTime cfg mp txs) k) = Some 100"
    "map_option r_tradeCount (realizedGains (derive ar getTime cfg mp txs) k) = Some 2"
    using ev
    by (auto simp add: derive_def srt Let_def finalHoldings_def finalRealized_def toRealized_def
          sharesOf_def realizedPLOf_def tradeCountOf_def split: option.splits)
  show ?thesis
    using realized_step [of st t j] ev fin by (simp add: srt)
qed

section \<open>Valuation\<close>





section \<open>Order of the replay and the input array\<close>

lemma deriveOnStore_run:
  assumes "readArray hp a = Some ts"
  shows "deriveOnStore ar g cfg mp hp a
           = Some (derive ar g cfg mp ts, hp @ [sortedTrans g ts])"
  using assms
  by (simp add: deriveOnStore_def spread_def sortInPlace_def readArray_def derive_def
        sortedTrans_def Let_def nth_append split: if_splits)

lemma readArray_append:
  assumes "readArray hp a = Some ts"
  shows "readArray (hp @ [xs]) a = Some ts"
  using assms by (simp add: readArray_def nth_append split: if_splits)

lemma derive_replays_sorted:
  "derive ar g cfg mp ts =
     \<lparr> holdings = finalHoldings ar cfg mp (replay (sortedTrans g ts)),
       realizedGains = finalRealized ar (replay (sortedTrans g ts)) \<rparr>"
  by (simp add: derive_def Let_def)

text \<open>
  The entry form does not test its date, and a cleared date field holds the empty text,
  which is no date. In a log holding a sell of 1 May, a transaction without date and a
  buy of 1 January, every comparison with the dateless transaction gives \<^verbatim>\<open>NaN\<close>, the
  sort leaves the log as it is, and the derivation replays the sell of May before the buy
  of January: the sell finds no shares and is dropped, and the ticker ends with 10 open
  shares and no realized trade.
\<close>

theorem empty_date_breaks_date_order:
  "map_option (map t_date \<circ> transactions)
     (handleAddTransaction exactArith parseDecimal ''1700000000000''
        (initialState \<lparr> f_date = [], f_ticker = ''aapl'', f_name = [], f_type = Buy,
                         f_market = US, f_price = ''100'', f_shares = ''5'',
                         f_isETF = False \<rparr>))
     = Some [[]]
   \<and> isoDateTime (t_date (tx ''2024-05-01'' ''2330'' Sell 10 1200)) = Some 1714521600000
   \<and> isoDateTime (t_date (tx [] ''AAPL'' Buy 5 500)) = None
   \<and> isoDateTime (t_date (tx ''2024-01-01'' ''2330'' Buy 10 1000)) = Some 1704067200000
   \<and> sortedTrans isoDateTime
        [tx ''2024-05-01'' ''2330'' Sell 10 1200, tx [] ''AAPL'' Buy 5 500,
         tx ''2024-01-01'' ''2330'' Buy 10 1000]
       = [tx ''2024-05-01'' ''2330'' Sell 10 1200, tx [] ''AAPL'' Buy 5 500,
          tx ''2024-01-01'' ''2330'' Buy 10 1000]
   \<and> sharesOf (replay (sortedTrans isoDateTime
        [tx ''2024-05-01'' ''2330'' Sell 10 1200, tx [] ''AAPL'' Buy 5 500,
         tx ''2024-01-01'' ''2330'' Buy 10 1000])) ''2330'' = 10
   \<and> tradeCountOf (replay (sortedTrans isoDateTime
        [tx ''2024-05-01'' ''2330'' Sell 10 1200, tx [] ''AAPL'' Buy 5 500,
         tx ''2024-01-01'' ''2330'' Buy 10 1000])) ''2330'' = 0"
proof -
  have times: "isoDateTime ''2024-05-01'' = Some 1714521600000"
    "isoDateTime [] = None" "isoDateTime ''2024-01-01'' = Some 1704067200000"
    by (simp_all add: iso_defs)
  have srt: "sortedTrans isoDateTime
        [tx ''2024-05-01'' ''2330'' Sell 10 1200, tx [] ''AAPL'' Buy 5 500,
         tx ''2024-01-01'' ''2330'' Buy 10 1000]
       = [tx ''2024-05-01'' ''2330'' Sell 10 1200, tx [] ''AAPL'' Buy 5 500,
          tx ''2024-01-01'' ''2330'' Buy 10 1000]"
    by (simp add: sort_defs times tx_def)
  have form: "map_option (map t_date \<circ> transactions)
     (handleAddTransaction exactArith parseDecimal ''1700000000000''
        (initialState \<lparr> f_date = [], f_ticker = ''aapl'', f_name = [], f_type = Buy,
                         f_market = US, f_price = ''100'', f_shares = ''5'',
                         f_isETF = False \<rparr>))
     = Some [[]]"
    by (simp add: handleAddTransaction_def initialState_def parse_defs Let_def)
  have run: "sharesOf (replay
        [tx ''2024-05-01'' ''2330'' Sell 10 1200, tx [] ''AAPL'' Buy 5 500,
         tx ''2024-01-01'' ''2330'' Buy 10 1000]) ''2330'' = 10"
    "tradeCountOf (replay
        [tx ''2024-05-01'' ''2330'' Sell 10 1200, tx [] ''AAPL'' Buy 5 500,
         tx ''2024-01-01'' ''2330'' Buy 10 1000]) ''2330'' = 0"
    by (simp_all add: replay_defs view_defs tx_def)
  have dates: "isoDateTime (t_date (tx ''2024-05-01'' ''2330'' Sell 10 1200)) = Some 1714521600000"
    "isoDateTime (t_date (tx [] ''AAPL'' Buy 5 500)) = None"
    "isoDateTime (t_date (tx ''2024-01-01'' ''2330'' Buy 10 1000)) = Some 1704067200000"
    by (simp_all add: times tx_def)
  show ?thesis
    using form dates srt run by simp
qed

text \<open>
  Claim C9, amended. For every transaction log, the derivation replays a rearrangement of
  the log from front to back: its result is read off the state reached by processing the
  sorted list one transaction after the other from the empty state. When every date of the
  log is a valid date, the sorted list is in ascending order of date, with transactions of
  one date in the order of the log (a stable sort). The derivation sorts a copy: the array
  holding the log is the same after the derivation as before, and running the derivation
  again on the same inputs gives the same holdings and realized gains.
\<close>

theorem replay_order_is_stable_and_log_untouched:
  assumes stored: "readArray hp transactions_addr = Some ts"
  shows "((\<forall>t\<in>set ts. getTime (t_date t) \<noteq> None) \<longrightarrow>
            sorted_wrt
              (\<lambda>a b. \<exists>x y. getTime (t_date a) = Some x \<and> getTime (t_date b) = Some y
                         \<and> x \<le> y)
              (sortedTrans getTime ts)
          \<and> filter (\<lambda>t. getTime (t_date t) = Some v) (sortedTrans getTime ts)
              = filter (\<lambda>t. getTime (t_date t) = Some v) ts)
       \<and> mset (sortedTrans getTime ts) = mset ts
       \<and> replay [] = emptyReplay
       \<and> replay (pre @ [t]) = processTrans (replay pre) t
       \<and> derive ar getTime cfg mp ts =
           \<lparr> holdings = finalHoldings ar cfg mp (replay (sortedTrans getTime ts)),
             realizedGains = finalRealized ar (replay (sortedTrans getTime ts)) \<rparr>
       \<and> (\<exists>hp1 hp2. deriveOnStore ar getTime cfg mp hp transactions_addr
                        = Some (derive ar getTime cfg mp ts, hp1)
              \<and> readArray hp1 transactions_addr = Some ts
              \<and> deriveOnStore ar getTime cfg mp hp1 transactions_addr
                        = Some (derive ar getTime cfg mp ts, hp2)
              \<and> readArray hp2 transactions_addr = Some ts)"
proof -
  note kept = readArray_append [OF stored]
  note run1 = deriveOnStore_run [OF stored, of ar getTime cfg mp]
  note run2 = deriveOnStore_run [OF kept, of ar getTime cfg mp]
  have ordered: "sorted_wrt
              (\<lambda>a b. \<exists>x y. getTime (t_date a) = Some x \<and> getTime (t_date b) = Some y
                         \<and> x \<le> y)
              (sortedTrans getTime ts)
          \<and> filter (\<lambda>t. getTime (t_date t) = Some v) (sortedTrans getTime ts)
              = filter (\<lambda>t. getTime (t_date t) = Some v) ts"
    if "\<forall>t\<in>set ts. getTime (t_date t) \<noteq> None"
    using sortedTrans_sorted [OF that] sortedTrans_stable [OF that, of v] by simp
  have store: "\<exists>hp1 hp2. deriveOnStore ar getTime cfg mp hp transactions_addr
                        = Some (derive ar getTime cfg mp ts, hp1)
              \<and> readArray hp1 transactions_addr = Some ts
              \<and> deriveOnStore ar getTime cfg mp hp1 transactions_addr
                        = Some (derive ar getTime cfg mp ts, hp2)
              \<and> readArray hp2 transactions_addr = Some ts"
    using run1 run2 kept readArray_append [OF kept] by blast
  show ?thesis
    using ordered store
    by (simp add: mset_sortedTrans replay_Nil replay_snoc derive_replays_sorted)
qed

text \<open>
  A log of three transactions of one ticker, entered as a sell of 10 shares on 2 January,
  a buy of 10 on 1 January and a buy of 5 on 2 January. The replay takes the buy of
  1 January first and keeps the two of 2 January in log order, so the sell closes the
  first position with a gain of 200 before the second buy opens one of 5 shares; in log
  order the sell would have been dropped. The store gains the sorted copy and the log's
  array stays as it was.
\<close>

theorem replay_order_is_stable_and_log_untouched_witness:
  "isoDateTime (t_date (tx ''2024-01-02'' ''2330'' Sell 10 1200)) = Some 1704153600000
   \<and> isoDateTime (t_date (tx ''2024-01-01'' ''2330'' Buy 10 1000)) = Some 1704067200000
   \<and> isoDateTime (t_date (tx ''2024-01-02'' ''2330'' Buy 5 600)) = Some 1704153600000
   \<and> readArray [[tx ''2024-01-02'' ''2330'' Sell 10 1200, tx ''2024-01-01'' ''2330'' Buy 10 1000,
                  tx ''2024-01-02'' ''2330'' Buy 5 600]] 0
       = Some [tx ''2024-01-02'' ''2330'' Sell 10 1200, tx ''2024-01-01'' ''2330'' Buy 10 1000,
               tx ''2024-01-02'' ''2330'' Buy 5 600]
   \<and> sortedTrans isoDateTime
        [tx ''2024-01-02'' ''2330'' Sell 10 1200, tx ''2024-01-01'' ''2330'' Buy 10 1000,
         tx ''2024-01-02'' ''2330'' Buy 5 600]
       = [tx ''2024-01-01'' ''2330'' Buy 10 1000, tx ''2024-01-02'' ''2330'' Sell 10 1200,
          tx ''2024-01-02'' ''2330'' Buy 5 600]
   \<and> map_option r_realizedPL
        (realizedGains (derive exactArith isoDateTime DEFAULT_SETTINGS Map.empty
           [tx ''2024-01-02'' ''2330'' Sell 10 1200, tx ''2024-01-01'' ''2330'' Buy 10 1000,
            tx ''2024-01-02'' ''2330'' Buy 5 600]) ''2330'') = Some 200
   \<and> map_option h_shares
        (holdings (derive exactArith isoDateTime DEFAULT_SETTINGS Map.empty
           [tx ''2024-01-02'' ''2330'' Sell 10 1200, tx ''2024-01-01'' ''2330'' Buy 10 1000,
            tx ''2024-01-02'' ''2330'' Buy 5 600]) ''2330'') = Some 5
   \<and> map_option snd
        (deriveOnStore exactArith isoDateTime DEFAULT_SETTINGS Map.empty
           [[tx ''2024-01-02'' ''2330'' Sell 10 1200, tx ''2024-01-01'' ''2330'' Buy 10 1000,
             tx ''2024-01-02'' ''2330'' Buy 5 600]] 0)
       = Some [[tx ''2024-01-02'' ''2330'' Sell 10 1200, tx ''2024-01-01'' ''2330'' Buy 10 1000,
                tx ''2024-01-02'' ''2330'' Buy 5 600],
               [tx ''2024-01-01'' ''2330'' Buy 10 1000, tx ''2024-01-02'' ''2330'' Sell 10 1200,
                tx ''2024-01-02'' ''2330'' Buy 5 600]]"
proof -
  have times: "isoDateTime ''2024-01-01'' = Some 1704067200000"
    "isoDateTime ''2024-01-02'' = Some 1704153600000"
    by (simp_all add: iso_defs)
  have srt: "sortedTrans isoDateTime
        [tx ''2024-01-02'' ''2330'' Sell 10 1200, tx ''2024-01-01'' ''2330'' Buy 10 1000,
         tx ''2024-01-02'' ''2330'' Buy 5 600]
       = [tx ''2024-01-01'' ''2330'' Buy 10 1000, tx ''2024-01-02'' ''2330'' Sell 10 1200,
          tx ''2024-01-02'' ''2330'' Buy 5 600]"
    by (simp add: sort_defs times tx_def)
  have dates:
    "isoDateTime (t_date (tx ''2024-01-02'' ''2330'' Sell 10 1200)) = Some 1704153600000"
    "isoDateTime (t_date (tx ''2024-01-01'' ''2330'' Buy 10 1000)) = Some 1704067200000"
    "isoDateTime (t_date (tx ''2024-01-02'' ''2330'' Buy 5 600)) = Some 1704153600000"
    by (simp_all add: times tx_def)
  have rd: "readArray [[tx ''2024-01-02'' ''2330'' Sell 10 1200,
                  tx ''2024-01-01'' ''2330'' Buy 10 1000,
                  tx ''2024-01-02'' ''2330'' Buy 5 600]] 0
       = Some [tx ''2024-01-02'' ''2330'' Sell 10 1200, tx ''2024-01-01'' ''2330'' Buy 10 1000,
               tx ''2024-01-02'' ''2330'' Buy 5 600]"
    by (simp add: readArray_def)
  have run: "map_option snd
        (deriveOnStore exactArith isoDateTime DEFAULT_SETTINGS Map.empty
           [[tx ''2024-01-02'' ''2330'' Sell 10 1200, tx ''2024-01-01'' ''2330'' Buy 10 1000,
             tx ''2024-01-02'' ''2330'' Buy 5 600]] 0)
       = Some [[tx ''2024-01-02'' ''2330'' Sell 10 1200, tx ''2024-01-01'' ''2330'' Buy 10 1000,
                tx ''2024-01-02'' ''2330'' Buy 5 600],
               [tx ''2024-01-01'' ''2330'' Buy 10 1000, tx ''2024-01-02'' ''2330'' Sell 10 1200,
                tx ''2024-01-02'' ''2330'' Buy 5 600]]"
    using deriveOnStore_run [OF rd, of exactArith isoDateTime DEFAULT_SETTINGS Map.empty]
    by (simp add: srt)
  have st: "tempRealized (replay
          [tx ''2024-01-01'' ''2330'' Buy 10 1000, tx ''2024-01-02'' ''2330'' Sell 10 1200,
           tx ''2024-01-02'' ''2330'' Buy 5 600]) ''2330''
        = Some \<lparr> r_ticker = ''2330'', r_name = ''2330'', r_market = TW, r_currency = TWD,
                 r_realizedPL = 200, r_totalCost = 1000, r_totalRevenue = 1200, r_roi = 0,
                 r_tradeCount = 1, r_isETF = False \<rparr>"
    "tempHoldings (replay
          [tx ''2024-01-01'' ''2330'' Buy 10 1000, tx ''2024-01-02'' ''2330'' Sell 10 1200,
           tx ''2024-01-02'' ''2330'' Buy 5 600]) ''2330''
        = Some \<lparr> h_ticker = ''2330'', h_name = ''2330'', h_market = TW, h_shares = 5,
                 h_totalCost = 600, h_isETF = False \<rparr>"
    by (simp_all add: replay_defs tx_def)
  have res: "map_option r_realizedPL
        (realizedGains (derive exactArith isoDateTime DEFAULT_SETTINGS Map.empty
           [tx ''2024-01-02'' ''2330'' Sell 10 1200, tx ''2024-01-01'' ''2330'' Buy 10 1000,
            tx ''2024-01-02'' ''2330'' Buy 5 600]) ''2330'') = Some 200"
    "map_option h_shares
        (holdings (derive exactArith isoDateTime DEFAULT_SETTINGS Map.empty
           [tx ''2024-01-02'' ''2330'' Sell 10 1200, tx ''2024-01-01'' ''2330'' Buy 10 1000,
            tx ''2024-01-02'' ''2330'' Buy 5 600]) ''2330'') = Some 5"
    by (simp_all add: derive_def srt st finalRealized_def finalHoldings_def toRealized_def
          toHolding_def Let_def split_beta)
  show ?thesis
    using replay_order_is_stable_and_log_untouched
      [of "[[tx ''2024-01-02'' ''2330'' Sell 10 1200, tx ''2024-01-01'' ''2330'' Buy 10 1000,
             tx ''2024-01-02'' ''2330'' Buy 5 600]]" 0
          "[tx ''2024-01-02'' ''2330'' Sell 10 1200, tx ''2024-01-01'' ''2330'' Buy 10 1000,
            tx ''2024-01-02'' ''2330'' Buy 5 600]" isoDateTime]
      dates rd srt run res
    by simp
qed

section \<open>The entry form\<close>

text \<open>
  A price of \<^verbatim>\<open>0\<close> is not empty text. Submitting a buy of 10 shares of \<^verbatim>\<open>aapl\<close> at \<^verbatim>\<open>0\<close> from
  the initial state appends a transaction with price 0 to the empty log.
\<close>

theorem zero_price_is_appended:
  "parseDecimal ''0'' = Some 0
   \<and> map_option transactions
       (handleAddTransaction exactArith parseDecimal ''1700000000000''
          (initialState \<lparr> f_date = ''2024-01-01'', f_ticker = ''aapl'', f_name = [],
                           f_type = Buy, f_market = US, f_price = ''0'', f_shares = ''10'',
                           f_isETF = False \<rparr>))
       = Some [zeroPriceBuy]"
  by (simp add: handleAddTransaction_def initialState_def zeroPriceBuy_def parse_defs calc_defs
        toUpperCase_def Let_def)

text \<open>
  Claim C5, amended. For every submitted form whose ticker, price or shares text is empty,
  the submission is rejected before a Transaction is constructed: the state, the
  transaction log included, is left unchanged (a no-op, not an exception). A form whose
  three texts are non-empty is not rejected: when price and shares parse to numbers, zero
  and negative numbers included, a transaction with that price and share count is appended
  to the log.
\<close>

theorem empty_field_rejects_submission:
  "(f_ticker (form s) = [] \<or> f_price (form s) = [] \<or> f_shares (form s) = [] \<longrightarrow>
      handleAddTransaction ar parseFloat now s = Some s)
   \<and> (f_ticker (form s) \<noteq> [] \<and> f_price (form s) \<noteq> [] \<and> f_shares (form s) \<noteq> []
        \<and> parseFloat (f_price (form s)) = Some priceNum
        \<and> parseFloat (f_shares (form s)) = Some sharesNum \<longrightarrow>
      (\<exists>newTrans. map_option transactions (handleAddTransaction ar parseFloat now s)
                     = Some (transactions s @ [newTrans])
                 \<and> t_price newTrans = priceNum \<and> t_shares newTrans = sharesNum))"
  by (simp add: handleAddTransaction_def Let_def)

text \<open>
  A form with no price is rejected and the empty log stays empty; the same form with price
  \<^verbatim>\<open>-5\<close> passes and the log gains one transaction.
\<close>

theorem empty_field_rejects_submission_witness:
  "f_price (form (initialState \<lparr> f_date = ''2024-01-01'', f_ticker = ''2330'', f_name = [],
                    f_type = Buy, f_market = TW, f_price = [], f_shares = ''10'',
                    f_isETF = False \<rparr>)) = []
   \<and> map_option transactions
       (handleAddTransaction exactArith parseDecimal ''1700000000000''
          (initialState \<lparr> f_date = ''2024-01-01'', f_ticker = ''2330'', f_name = [],
                           f_type = Buy, f_market = TW, f_price = [], f_shares = ''10'',
                           f_isETF = False \<rparr>)) = Some []
   \<and> parseDecimal ''-5'' = Some (- 5) \<and> parseDecimal ''10'' = Some 10
   \<and> map_option (map t_price \<circ> transactions)
       (handleAddTransaction exactArith parseDecimal ''1700000000000''
          (initialState \<lparr> f_date = ''2024-01-01'', f_ticker = ''2330'', f_name = [],
                           f_type = Buy, f_market = TW, f_price = ''-5'', f_shares = ''10'',
                           f_isETF = False \<rparr>)) = Some [- 5]"
proof -
  have p: "parseDecimal ''-5'' = Some (- 5)" "parseDecimal ''10'' = Some 10"
    by (simp_all add: parse_defs Let_def)
  show ?thesis
    using empty_field_rejects_submission
        [where s = "initialState \<lparr> f_date = ''2024-01-01'', f_ticker = ''2330'', f_name = [],
                            f_type = Buy, f_market = TW, f_price = [], f_shares = ''10'',
                            f_isETF = False \<rparr>"
            and ar = exactArith and parseFloat = parseDecimal and now = "''1700000000000''"]
      empty_field_rejects_submission
        [where s = "initialState \<lparr> f_date = ''2024-01-01'', f_ticker = ''2330'', f_name = [],
                            f_type = Buy, f_market = TW, f_price = ''-5'', f_shares = ''10'',
                            f_isETF = False \<rparr>"
            and ar = exactArith and parseFloat = parseDecimal and now = "''1700000000000''"
            and priceNum = "- 5" and sharesNum = 10]
    by (auto simp add: p initialState_def)
qed

text \<open>
  Claim C10. Appending a buy transaction also sets the manual current-price entry of the
  transaction's ticker to the buy's trade price, replacing any earlier entry; appending a
  sell transaction leaves the manual price map unchanged.
\<close>

theorem buy_overwrites_manual_price:
  assumes "f_ticker (form s) \<noteq> []" and "f_price (form s) \<noteq> []" and "f_shares (form s) \<noteq> []"
    and "parseFloat (f_price (form s)) = Some priceNum"
    and "parseFloat (f_shares (form s)) = Some sharesNum"
  shows "\<exists>s' newTrans.
           handleAddTransaction ar parseFloat now s = Some s'
         \<and> transactions s' = transactions s @ [newTrans]
         \<and> t_type newTrans = f_type (form s)
         \<and> t_ticker newTrans = toUpperCase (f_ticker (form s))
         \<and> t_price newTrans = priceNum
         \<and> manualPrices s' =
             (if t_type newTrans = Buy
              then (manualPrices s)(t_ticker newTrans \<mapsto> t_price newTrans)
              else manualPrices s)"
  using assms by (simp add: handleAddTransaction_def Let_def)

text \<open>
  With a manual price of 120 on AAPL, a buy at 150.5 leaves the entry at 150.5, and a sell
  at 170 leaves it at 120.
\<close>

theorem buy_overwrites_manual_price_witness:
  "parseDecimal ''150.5'' = Some 150.5 \<and> parseDecimal ''170'' = Some 170
   \<and> parseDecimal ''10'' = Some 10
   \<and> map_option (\<lambda>s'. manualPrices s' ''AAPL'')
       (handleAddTransaction exactArith parseDecimal ''1700000000000''
          ((initialState \<lparr> f_date = ''2024-01-01'', f_ticker = ''aapl'', f_name = [],
                            f_type = Buy, f_market = US, f_price = ''150.5'',
                            f_shares = ''10'', f_isETF = False \<rparr>)
             \<lparr> manualPrices := [''AAPL'' \<mapsto> 120] \<rparr>))
       = Some (Some 150.5)
   \<and> map_option (\<lambda>s'. manualPrices s' ''AAPL'')
       (handleAddTransaction exactArith parseDecimal ''1700000000000''
          ((initialState \<lparr> f_date = ''2024-01-01'', f_ticker = ''aapl'', f_name = [],
                            f_type = Sell, f_market = US, f_price = ''170'',
                            f_shares = ''10'', f_isETF = False \<rparr>)
             \<lparr> manualPrices := [''AAPL'' \<mapsto> 120] \<rparr>))
       = Some (Some 120)"
proof -
  have p: "parseDecimal ''150.5'' = Some 150.5" "parseDecimal ''170'' = Some 170"
    "parseDecimal ''10'' = Some 10"
    by (simp_all add: parse_defs Let_def)
  have up: "toUpperCase ''aapl'' = ''AAPL''"
    by (simp add: toUpperCase_def)
  show ?thesis
    using buy_overwrites_manual_price
        [where s = "(initialState \<lparr> f_date = ''2024-01-01'', f_ticker = ''aapl'', f_name = [],
                            f_type = Buy, f_market = US, f_price = ''150.5'',
                            f_shares = ''10'', f_isETF = False \<rparr>)
             \<lparr> manualPrices := [''AAPL'' \<mapsto> 120] \<rparr>"
            and ar = exactArith and parseFloat = parseDecimal and now = "''1700000000000''"
            and priceNum = "150.5" and sharesNum = 10]
      buy_overwrites_manual_price
        [where s = "(initialState \<lparr> f_date = ''2024-01-01'', f_ticker = ''aapl'', f_name = [],
                            f_type = Sell, f_market = US, f_price = ''170'',
                            f_shares = ''10'', f_isETF = False \<rparr>)
             \<lparr> manualPrices := [''AAPL'' \<mapsto> 120] \<rparr>"
            and ar = exactArith and parseFloat = parseDecimal and now = "''1700000000000''"
            and priceNum = 170 and sharesNum = 10]
    by (auto simp add: p up initialState_def)
qed

end
